theory Spec2Isabelle
  imports Complex_Main "HOL-Library.Sublist" "HOL-Library.Monad_Syntax"
begin

section \<open>Raw values, violations and results\<close>

text \<open>
  The three scripts declare pydantic models and construct them from keyword arguments.
  A raw input is the mapping of keyword arguments, kept as an association list that is
  read with \<open>map_of\<close> (a Python call cannot repeat a keyword; on a repeated key the
  first binding is the one read).  Python's unbounded \<open>int\<close> is \<open>int\<close>.  A finite
  \<open>float\<close> is modelled by the rational number it denotes: the programs only store
  floats and compare them with constants, and both agree with the rationals on finite
  values; NaN and the infinities are not raw values of the model.  A \<open>str\<close> is a
  \<open>string\<close> and its length the number of its characters.
\<close>

datatype datetime = Datetime int int int int int int

datatype raw =
    RNone
  | RBool bool
  | RInt int
  | RFloat rat
  | RStr string
  | RDatetime datetime
  | RList "raw list"
  | RDict "(string \<times> raw) list"

type_synonym raw_values = "(string \<times> raw) list"

text \<open>
  Modelled from the spec: a Violation (sections 3 and 7) is a MissingField, a
  TypeMismatch, a ConstraintViolation or a RuleViolation.  The library's own error
  objects are absent from the sources; here a field-level violation carries the location
  of the field (the field name, then the index and the field name inside a list of
  nested records) and the expected type or the constraint that failed, and a
  RuleViolation carries the message of the \<open>ValueError\<close> that the validator raised.
\<close>

datatype loc_item = Key string | Idx nat

datatype constraint = MinLength nat | MaxLength nat | Ge rat | Le rat

datatype violation =
    MissingField "loc_item list"
  | TypeMismatch "loc_item list" string
  | ConstraintViolation "loc_item list" constraint
  | RuleViolation string

type_synonym 'a result = "violation list + 'a"

fun field_level :: "violation \<Rightarrow> bool" where
  "field_level (RuleViolation msg) = False"
| "field_level v = True"

fun violation_loc :: "violation \<Rightarrow> loc_item list" where
  "violation_loc (MissingField loc) = loc"
| "violation_loc (TypeMismatch loc expected) = loc"
| "violation_loc (ConstraintViolation loc c) = loc"
| "violation_loc (RuleViolation msg) = []"

fun prefix_loc :: "loc_item \<Rightarrow> violation \<Rightarrow> violation" where
  "prefix_loc item (MissingField loc) = MissingField (item # loc)"
| "prefix_loc item (TypeMismatch loc expected) = TypeMismatch (item # loc) expected"
| "prefix_loc item (ConstraintViolation loc c) = ConstraintViolation (item # loc) c"
| "prefix_loc item (RuleViolation msg) = RuleViolation msg"

text \<open>
  Modelled from the spec: the violations of a nested value are reported under the
  location of the field that holds it, and checks are chained so that the first failure
  of one field ends the checks of that field.
\<close>

definition at_loc :: "loc_item \<Rightarrow> 'a result \<Rightarrow> 'a result" where
  "at_loc item r = (case r of Inl es \<Rightarrow> Inl (map (prefix_loc item) es) | Inr v \<Rightarrow> Inr v)"

definition and_then :: "'a result \<Rightarrow> ('a \<Rightarrow> 'b result) \<Rightarrow> 'b result" where
  "and_then r f = (case r of Inl es \<Rightarrow> Inl es | Inr v \<Rightarrow> f v)"

section \<open>The validation engine\<close>

text \<open>
  Modelled from the spec: the engine that constructs a model instance (pydantic's
  \<open>BaseModel\<close>, \<open>Field\<close> and \<open>model_validator\<close>) is a library the
  repository imports and is absent from the sources.  The definitions of this section
  follow sections 4.1 and 7 of the specification: fields are taken in declaration order;
  an absent field takes its default or is a MissingField; a raw value is coerced to the
  declared type (a failure is a TypeMismatch naming the expected type); every declared
  constraint that fails is a ConstraintViolation; the violations of all fields accumulate;
  and the record-level rules run only when no field-level violation occurred.
\<close>

text \<open>
  Modelled from the spec: the conversions from strings (numeric parse, timestamp parse)
  are injected; the theorems hold for every choice of them.
\<close>

record conversions =
  parse_int :: "string \<Rightarrow> int option"
  parse_float :: "string \<Rightarrow> rat option"
  parse_datetime :: "string \<Rightarrow> datetime option"

subsection \<open>Step 2: coercion\<close>

text \<open>
  Modelled from the spec: step 2 for each declared type.  A raw value of the declared
  type is taken as it is, an integer is read as a float, a string is parsed by the
  injected conversion for numbers and timestamps and looked up by value for an enum;
  anything else is a TypeMismatch naming the expected type.  The library's own coercion
  tables are absent from the sources.
\<close>

definition coerce_str :: "raw \<Rightarrow> string result" where
  "coerce_str v = (case v of RStr s \<Rightarrow> Inr s | _ \<Rightarrow> Inl [TypeMismatch [] ''string''])"

definition coerce_bool :: "raw \<Rightarrow> bool result" where
  "coerce_bool v = (case v of RBool b \<Rightarrow> Inr b | _ \<Rightarrow> Inl [TypeMismatch [] ''boolean''])"

definition coerce_int :: "conversions \<Rightarrow> raw \<Rightarrow> int result" where
  "coerce_int cv v =
     (case v of
        RInt i \<Rightarrow> Inr i
      | RStr s \<Rightarrow> (case parse_int cv s of Some i \<Rightarrow> Inr i
                                      | None \<Rightarrow> Inl [TypeMismatch [] ''integer''])
      | _ \<Rightarrow> Inl [TypeMismatch [] ''integer''])"

definition coerce_float :: "conversions \<Rightarrow> raw \<Rightarrow> rat result" where
  "coerce_float cv v =
     (case v of
        RFloat x \<Rightarrow> Inr x
      | RInt i \<Rightarrow> Inr (of_int i)
      | RStr s \<Rightarrow> (case parse_float cv s of Some x \<Rightarrow> Inr x
                                        | None \<Rightarrow> Inl [TypeMismatch [] ''number''])
      | _ \<Rightarrow> Inl [TypeMismatch [] ''number''])"

definition coerce_datetime :: "conversions \<Rightarrow> raw \<Rightarrow> datetime result" where
  "coerce_datetime cv v =
     (case v of
        RDatetime d \<Rightarrow> Inr d
      | RStr s \<Rightarrow> (case parse_datetime cv s of Some d \<Rightarrow> Inr d
                                           | None \<Rightarrow> Inl [TypeMismatch [] ''datetime''])
      | _ \<Rightarrow> Inl [TypeMismatch [] ''datetime''])"

definition coerce_enum :: "(string \<Rightarrow> 'e option) \<Rightarrow> raw \<Rightarrow> 'e result" where
  "coerce_enum by_value v =
     (case v of
        RStr s \<Rightarrow> (case by_value s of Some e \<Rightarrow> Inr e
                                    | None \<Rightarrow> Inl [TypeMismatch [] ''enum''])
      | _ \<Rightarrow> Inl [TypeMismatch [] ''enum''])"

subsection \<open>Step 3: declared constraints\<close>

text \<open>
  Modelled from the spec: step 3.  \<open>min_length\<close> and \<open>max_length\<close> bound the length of a
  string or list, \<open>ge\<close> and \<open>le\<close> bound a number, and each declared constraint that
  fails is one ConstraintViolation.
\<close>

fun len_ok :: "nat \<Rightarrow> constraint \<Rightarrow> bool" where
  "len_ok n (MinLength k) = (k \<le> n)"
| "len_ok n (MaxLength k) = (n \<le> k)"
| "len_ok n c = True"

fun num_ok :: "rat \<Rightarrow> constraint \<Rightarrow> bool" where
  "num_ok x (Ge b) = (b \<le> x)"
| "num_ok x (Le b) = (x \<le> b)"
| "num_ok x c = True"

definition constrain :: "(constraint \<Rightarrow> bool) \<Rightarrow> constraint list \<Rightarrow> 'a \<Rightarrow> 'a result" where
  "constrain ok cs v =
     (case filter (\<lambda>c. \<not> ok c) cs of
        [] \<Rightarrow> Inr v
      | bad \<Rightarrow> Inl (map (ConstraintViolation []) bad))"

subsection \<open>Field types: coercion followed by the constraints\<close>

text \<open>
  Modelled from the spec: a field of a declared type is coerced, then held against its
  declared constraints; an \<open>Optional\<close> field also accepts \<open>None\<close>.
\<close>

definition str_of :: "constraint list \<Rightarrow> raw \<Rightarrow> string result" where
  "str_of cs v = and_then (coerce_str v) (\<lambda>s. constrain (len_ok (length s)) cs s)"

definition int_of :: "conversions \<Rightarrow> constraint list \<Rightarrow> raw \<Rightarrow> int result" where
  "int_of cv cs v = and_then (coerce_int cv v) (\<lambda>i. constrain (num_ok (of_int i)) cs i)"

definition float_of :: "conversions \<Rightarrow> constraint list \<Rightarrow> raw \<Rightarrow> rat result" where
  "float_of cv cs v = and_then (coerce_float cv v) (\<lambda>x. constrain (num_ok x) cs x)"

definition optional :: "(raw \<Rightarrow> 'a result) \<Rightarrow> raw \<Rightarrow> 'a option result" where
  "optional chk v =
     (case v of RNone \<Rightarrow> Inr None
              | _ \<Rightarrow> and_then (chk v) (\<lambda>x. Inr (Some x)))"

text \<open>
  Modelled from the spec: a list of nested records is validated recursively.  The
  elements are checked one by one, each under its index, and their violations
  accumulate; the length constraints apply to the coerced list.
\<close>

fun check_items :: "(raw \<Rightarrow> 'a result) \<Rightarrow> nat \<Rightarrow> raw list \<Rightarrow> 'a list result" where
  "check_items chk i [] = Inr []"
| "check_items chk i (x # xs) =
     (case (at_loc (Idx i) (chk x), check_items chk (Suc i) xs) of
        (Inr v, Inr vs) \<Rightarrow> Inr (v # vs)
      | (Inl es, Inr vs) \<Rightarrow> Inl es
      | (Inr v, Inl es') \<Rightarrow> Inl es'
      | (Inl es, Inl es') \<Rightarrow> Inl (es @ es'))"

definition list_of :: "constraint list \<Rightarrow> (raw \<Rightarrow> 'a result) \<Rightarrow> raw \<Rightarrow> 'a list result" where
  "list_of cs chk v =
     (case v of
        RList xs \<Rightarrow> and_then (check_items chk 0 xs) (\<lambda>vs. constrain (len_ok (length vs)) cs vs)
      | _ \<Rightarrow> Inl [TypeMismatch [] ''list''])"

definition record_of :: "(raw_values \<Rightarrow> 'r result) \<Rightarrow> raw \<Rightarrow> 'r result" where
  "record_of validate v =
     (case v of RDict kvs \<Rightarrow> validate kvs | _ \<Rightarrow> Inl [TypeMismatch [] ''record''])"

subsection \<open>Steps 1 and 4: the fields of a record, in declaration order\<close>

text \<open>
  Modelled from the spec: step 1 for one field.  The raw value is looked up by name and
  an absent one is replaced by the default; a field with neither is a MissingField.
  The outcome of the field is paired with its name.
\<close>

definition raw_value :: "string \<Rightarrow> raw option \<Rightarrow> raw_values \<Rightarrow> raw option" where
  "raw_value fname dflt rv = (case map_of rv fname of Some v \<Rightarrow> Some v | None \<Rightarrow> dflt)"

definition check_field ::
    "string \<Rightarrow> raw option \<Rightarrow> (raw \<Rightarrow> 'a result) \<Rightarrow> raw_values \<Rightarrow> string \<times> 'a result" where
  "check_field fname dflt chk rv =
     (fname,
      case raw_value fname dflt rv of
        Some v \<Rightarrow> at_loc (Key fname) (chk v)
      | None \<Rightarrow> Inl [MissingField [Key fname]])"

text \<open>
  Modelled from the spec: the field pass accumulates.  Its state is the violations
  found so far, field by field in declaration order (an empty list for a field that
  passed), and the constructor of the record applied to the values of the fields so
  far, as long as every one of them passed.
\<close>

type_synonym 'a fields = "(string \<times> violation list) list \<times> 'a option"

definition errs_of :: "'a result \<Rightarrow> violation list" where
  "errs_of r = (case r of Inl es \<Rightarrow> es | Inr v \<Rightarrow> [])"

definition no_fields :: "'a \<Rightarrow> 'a fields" where
  "no_fields mk = ([], Some mk)"

definition and_field :: "('a \<Rightarrow> 'b) fields \<Rightarrow> string \<times> 'a result \<Rightarrow> 'b fields" where
  "and_field acc fld =
     (fst acc @ [(fst fld, errs_of (snd fld))],
      case snd fld of
        Inl es \<Rightarrow> None
      | Inr v \<Rightarrow> map_option (\<lambda>mk. mk v) (snd acc))"

definition report :: "'a fields \<Rightarrow> (string \<times> violation list) list" where
  "report fs = fst fs"

definition field_violations :: "'a fields \<Rightarrow> violation list" where
  "field_violations fs = concat (map snd (report fs))"

text \<open>Modelled from the spec: the offending fields, those with a violation, in declaration order.\<close>

definition offending :: "'a fields \<Rightarrow> string list" where
  "offending fs = map fst (filter (\<lambda>entry. snd entry \<noteq> []) (report fs))"

text \<open>
  Modelled from the spec: step 4.  Any field-level violation ends the validation with
  the accumulated list.
\<close>

definition field_phase :: "'a fields \<Rightarrow> 'a result" where
  "field_phase fs = (case snd fs of Some r \<Rightarrow> Inr r | None \<Rightarrow> Inl (field_violations fs))"

text \<open>
  Three properties of the field pass that the proofs maintain: a failed check reports at
  least one violation and only field-level ones; the record is assembled exactly when
  the pass recorded no violation; and a scalar field reports at most one violation, at
  its own location.
\<close>

definition proper :: "'a result \<Rightarrow> bool" where
  "proper r = (\<forall>es. r = Inl es \<longrightarrow> es \<noteq> [] \<and> (\<forall>e \<in> set es. field_level e))"

definition consistent :: "'a fields \<Rightarrow> bool" where
  "consistent fs =
     ((snd fs = None \<longleftrightarrow> field_violations fs \<noteq> []) \<and>
      (\<forall>e \<in> set (field_violations fs). field_level e))"

definition single :: "loc_item list \<Rightarrow> violation list \<Rightarrow> bool" where
  "single loc es = (es = [] \<or> (\<exists>e. es = [e] \<and> violation_loc e = loc \<and> field_level e))"

text \<open>
  The violations of a field, nested ones included, are field-level and lie under the
  name of the field.
\<close>

definition located :: "string \<Rightarrow> violation list \<Rightarrow> bool" where
  "located fname es = (\<forall>e \<in> set es. field_level e \<and> take 1 (violation_loc e) = [Key fname])"

subsection \<open>Steps 5 and 6: the record-level rules\<close>

text \<open>
  Modelled from the spec: steps 5 and 6, for the library's \<open>model_validator\<close> hook.  A
  validator that runs after the fields (\<open>mode="after"\<close>) receives the assembled
  record; the \<open>ValueError\<close> it raises is the one RuleViolation of the outcome, and
  the record it returns is the result.
\<close>

definition after_fields :: "'r result \<Rightarrow> ('r \<Rightarrow> string + 'r) \<Rightarrow> 'r result" where
  "after_fields fr rule =
     (case fr of
        Inl es \<Rightarrow> Inl es
      | Inr r \<Rightarrow> (case rule r of Inl msg \<Rightarrow> Inl [RuleViolation msg] | Inr r' \<Rightarrow> Inr r'))"

text \<open>
  Modelled from the spec: a RuleSpec is a predicate on the record with a fixed message
  (the sources have no such table; their validators are single functions).
  \<open>failing\<close> lists the rules that a record fails, in declaration order, and
  \<open>first_failure\<close> is the message of the first of them.
\<close>

type_synonym 'r rule = "('r \<Rightarrow> bool) \<times> string"

definition failing :: "'r rule list \<Rightarrow> 'r \<Rightarrow> 'r rule list" where
  "failing rules r = filter (\<lambda>rule. \<not> fst rule r) rules"

definition first_failure :: "'r rule list \<Rightarrow> 'r \<Rightarrow> string option" where
  "first_failure rules r = map_option snd (find (\<lambda>rule. \<not> fst rule r) rules)"

section \<open>ex0: the space station\<close>

text \<open>
  \<^verbatim>\<open>
  class SpaceStation(BaseModel):
      station_id: str = Field(min_length=3, max_length=10)
      name: str = Field(min_length=1, max_length=50)
      crew_size: int = Field(ge=1, le=20)
      power_level: float = Field(ge=0.0, le=100.0)
      oxygen_level: float = Field(ge=0.0, le=100.0)
      last_maintenance: datetime
      is_operational: bool = True
      notes: Optional[str] = Field(default=None, max_length=200)
  \<close>
\<close>

record SpaceStation =
  station_id :: string
  name :: string
  crew_size :: int
  power_level :: rat
  oxygen_level :: rat
  last_maintenance :: datetime
  is_operational :: bool
  "notes" :: "string option"

definition fields_SpaceStation :: "conversions \<Rightarrow> raw_values \<Rightarrow> SpaceStation fields" where
  "fields_SpaceStation cv rv =
     and_field (and_field (and_field (and_field (and_field (and_field (and_field (and_field
       (no_fields (\<lambda>a b c d e f g h.
          \<lparr>station_id = a, name = b, crew_size = c, power_level = d, oxygen_level = e,
           last_maintenance = f, is_operational = g, notes = h\<rparr>))
       (check_field ''station_id'' None (str_of [MinLength 3, MaxLength 10]) rv))
       (check_field ''name'' None (str_of [MinLength 1, MaxLength 50]) rv))
       (check_field ''crew_size'' None (int_of cv [Ge 1, Le 20]) rv))
       (check_field ''power_level'' None (float_of cv [Ge 0, Le 100]) rv))
       (check_field ''oxygen_level'' None (float_of cv [Ge 0, Le 100]) rv))
       (check_field ''last_maintenance'' None (coerce_datetime cv) rv))
       (check_field ''is_operational'' (Some (RBool True)) coerce_bool rv))
       (check_field ''notes'' (Some RNone) (optional (str_of [MaxLength 200])) rv)"

text \<open>The class declares no validator of its own: the field pass is the whole validation.\<close>

definition validate_SpaceStation :: "conversions \<Rightarrow> raw_values \<Rightarrow> SpaceStation result" where
  "validate_SpaceStation cv rv = field_phase (fields_SpaceStation cv rv)"

section \<open>ex1: the alien contact log\<close>

datatype ContactType = radio | visual | physical | telepathic

fun ContactType_value :: "ContactType \<Rightarrow> string" where
  "ContactType_value radio = ''radio''"
| "ContactType_value visual = ''visual''"
| "ContactType_value physical = ''physical''"
| "ContactType_value telepathic = ''telepathic''"

definition ContactType_by_value :: "string \<Rightarrow> ContactType option" where
  "ContactType_by_value s =
     find (\<lambda>e. ContactType_value e = s) [radio, visual, physical, telepathic]"

text \<open>
  \<^verbatim>\<open>
  class AlienContact(BaseModel):
      contact_id: str = Field(min_length=5, max_length=15)
      timestamp: datetime
      location: str = Field(min_length=3, max_length=100)
      contact_type: ContactType
      signal_strength: float = Field(ge=0.0, le=10.0)
      duration_minutes: int = Field(ge=1, le=1440)
      witness_count: int = Field(ge=1, le=100)
      message_received: Optional[str] = Field(default=None, max_length=500)
      is_verified: bool = False
  \<close>
\<close>

record AlienContact =
  contact_id :: string
  timestamp :: datetime
  location :: string
  contact_type :: ContactType
  signal_strength :: rat
  duration_minutes :: int
  witness_count :: int
  message_received :: "string option"
  is_verified :: bool

definition fields_AlienContact :: "conversions \<Rightarrow> raw_values \<Rightarrow> AlienContact fields" where
  "fields_AlienContact cv rv =
     and_field (and_field (and_field (and_field (and_field (and_field (and_field (and_field
     (and_field
       (no_fields (\<lambda>a b c d e f g h i.
          \<lparr>contact_id = a, timestamp = b, location = c, contact_type = d,
           signal_strength = e, duration_minutes = f, witness_count = g,
           message_received = h, is_verified = i\<rparr>))
       (check_field ''contact_id'' None (str_of [MinLength 5, MaxLength 15]) rv))
       (check_field ''timestamp'' None (coerce_datetime cv) rv))
       (check_field ''location'' None (str_of [MinLength 3, MaxLength 100]) rv))
       (check_field ''contact_type'' None (coerce_enum ContactType_by_value) rv))
       (check_field ''signal_strength'' None (float_of cv [Ge 0, Le 10]) rv))
       (check_field ''duration_minutes'' None (int_of cv [Ge 1, Le 1440]) rv))
       (check_field ''witness_count'' None (int_of cv [Ge 1, Le 100]) rv))
       (check_field ''message_received'' (Some RNone) (optional (str_of [MaxLength 500])) rv))
       (check_field ''is_verified'' (Some (RBool False)) coerce_bool rv)"

text \<open>
  Python's truth value of an \<open>Optional[str]\<close>: \<open>None\<close> and the empty string are
  false, every other string is true.
\<close>

fun truthy :: "string option \<Rightarrow> bool" where
  "truthy None = False"
| "truthy (Some s) = (s \<noteq> [])"

text \<open>
  \<^verbatim>\<open>
  @model_validator(mode="after")
  def validate_business_rules(self) -> "AlienContact":
      if not self.contact_id.startswith("AC"):
          raise ValueError('Contact ID must start with "AC" (Alien Contact)')
      if self.contact_type == ContactType.physical and not self.is_verified:
          raise ValueError("Physical contact reports must be verified")
      if (self.contact_type == ContactType.telepathic and self.witness_count < 3):
          raise ValueError("Telepathic contact requires at least 3 witnesses")
      if self.signal_strength > 7.0 and not self.message_received:
          raise ValueError("Strong signals (> 7.0) should include received messages")
      return self
  \<close>
  A raised \<open>ValueError\<close> is \<open>Inl\<close> of its message.
\<close>

definition validate_business_rules :: "AlienContact \<Rightarrow> string + AlienContact" where
  \<open>validate_business_rules self =
     (if \<not> prefix ''AC'' (contact_id self) then
        Inl ''Contact ID must start with "AC" (Alien Contact)''
      else if contact_type self = physical \<and> \<not> is_verified self then
        Inl ''Physical contact reports must be verified''
      else if contact_type self = telepathic \<and> witness_count self < 3 then
        Inl ''Telepathic contact requires at least 3 witnesses''
      else if signal_strength self > 7 \<and> \<not> truthy (message_received self) then
        Inl ''Strong signals (> 7.0) should include received messages''
      else Inr self)\<close>

definition validate_AlienContact :: "conversions \<Rightarrow> raw_values \<Rightarrow> AlienContact result" where
  "validate_AlienContact cv rv =
     after_fields (field_phase (fields_AlienContact cv rv)) validate_business_rules"

text \<open>
  The four checks of the validator read as rules in the specification's sense, in the
  order in which the validator makes them.
\<close>

definition AlienContact_rules :: "AlienContact rule list" where
  \<open>AlienContact_rules =
     [(\<lambda>c. prefix ''AC'' (contact_id c),
         ''Contact ID must start with "AC" (Alien Contact)''),
      (\<lambda>c. contact_type c = physical \<longrightarrow> is_verified c,
         ''Physical contact reports must be verified''),
      (\<lambda>c. contact_type c = telepathic \<longrightarrow> 3 \<le> witness_count c,
         ''Telepathic contact requires at least 3 witnesses''),
      (\<lambda>c. 7 < signal_strength c \<longrightarrow> truthy (message_received c),
         ''Strong signals (> 7.0) should include received messages'')]\<close>

section \<open>ex2: the space crew\<close>

datatype Rank = cadet | officer | lieutenant | captain | commander

fun Rank_value :: "Rank \<Rightarrow> string" where
  "Rank_value cadet = ''cadet''"
| "Rank_value officer = ''officer''"
| "Rank_value lieutenant = ''lieutenant''"
| "Rank_value captain = ''captain''"
| "Rank_value commander = ''commander''"

definition Rank_by_value :: "string \<Rightarrow> Rank option" where
  "Rank_by_value s =
     find (\<lambda>e. Rank_value e = s) [cadet, officer, lieutenant, captain, commander]"

text \<open>
  \<^verbatim>\<open>
  class CrewMember(BaseModel):
      member_id: str = Field(min_length=3, max_length=10)
      name: str = Field(min_length=2, max_length=50)
      rank: Rank
      age: int = Field(ge=18, le=80)
      specialization: str = Field(min_length=3, max_length=30)
      years_experience: int = Field(ge=0, le=50)
      is_active: bool = True
  \<close>
\<close>

record CrewMember =
  member_id :: string
  name :: string
  rank :: Rank
  age :: int
  specialization :: string
  years_experience :: int
  is_active :: bool

definition fields_CrewMember :: "conversions \<Rightarrow> raw_values \<Rightarrow> CrewMember fields" where
  "fields_CrewMember cv rv =
     and_field (and_field (and_field (and_field (and_field (and_field (and_field
       (no_fields (\<lambda>a b c d e f g.
          \<lparr>member_id = a, name = b, rank = c, age = d, specialization = e,
           years_experience = f, is_active = g\<rparr>))
       (check_field ''member_id'' None (str_of [MinLength 3, MaxLength 10]) rv))
       (check_field ''name'' None (str_of [MinLength 2, MaxLength 50]) rv))
       (check_field ''rank'' None (coerce_enum Rank_by_value) rv))
       (check_field ''age'' None (int_of cv [Ge 18, Le 80]) rv))
       (check_field ''specialization'' None (str_of [MinLength 3, MaxLength 30]) rv))
       (check_field ''years_experience'' None (int_of cv [Ge 0, Le 50]) rv))
       (check_field ''is_active'' (Some (RBool True)) coerce_bool rv)"

definition validate_CrewMember :: "conversions \<Rightarrow> raw_values \<Rightarrow> CrewMember result" where
  "validate_CrewMember cv rv = field_phase (fields_CrewMember cv rv)"

text \<open>
  \<^verbatim>\<open>
  class SpaceMission(BaseModel):
      mission_id: str = Field(min_length=5, max_length=15)
      mission_name: str = Field(min_length=3, max_length=100)
      destination: str = Field(min_length=3, max_length=50)
      launch_date: datetime
      duration_days: int = Field(ge=1, le=3650)
      crew: List[CrewMember] = Field(min_length=1, max_length=12)
      mission_status: str = "planned"
      budget_millions: float = Field(ge=1.0, le=10000.0)
  \<close>
  A crew member is given as the mapping of its own fields and validated as a record.
\<close>

record SpaceMission =
  mission_id :: string
  mission_name :: string
  destination :: string
  launch_date :: datetime
  duration_days :: int
  crew :: "CrewMember list"
  mission_status :: string
  budget_millions :: rat

definition fields_SpaceMission :: "conversions \<Rightarrow> raw_values \<Rightarrow> SpaceMission fields" where
  "fields_SpaceMission cv rv =
     and_field (and_field (and_field (and_field (and_field (and_field (and_field (and_field
       (no_fields (\<lambda>a b c d e f g h.
          \<lparr>mission_id = a, mission_name = b, destination = c, launch_date = d,
           duration_days = e, crew = f, mission_status = g, budget_millions = h\<rparr>))
       (check_field ''mission_id'' None (str_of [MinLength 5, MaxLength 15]) rv))
       (check_field ''mission_name'' None (str_of [MinLength 3, MaxLength 100]) rv))
       (check_field ''destination'' None (str_of [MinLength 3, MaxLength 50]) rv))
       (check_field ''launch_date'' None (coerce_datetime cv) rv))
       (check_field ''duration_days'' None (int_of cv [Ge 1, Le 3650]) rv))
       (check_field ''crew'' None
          (list_of [MinLength 1, MaxLength 12] (record_of (validate_CrewMember cv))) rv))
       (check_field ''mission_status'' (Some (RStr ''planned'')) (str_of []) rv))
       (check_field ''budget_millions'' None (float_of cv [Ge 1, Le 10000]) rv)"

text \<open>
  \<^verbatim>\<open>
  @model_validator(mode="after")
  def validate_mission_rules(self) -> "SpaceMission":
      if not self.mission_id.startswith("M"):
          raise ValueError('Mission ID must start with "M"')

      has_leader = False
      for member in self.crew:
          if member.rank == Rank.captain or member.rank == Rank.commander:
              has_leader = True
      if not has_leader:
          raise ValueError("Mission must have at least" " one Commander" " or Captain")

      if self.duration_days > 365:
          exprienced = 0
          for member in self.crew:
              if member.years_experience >= 5:
                  exprienced += 1

          if exprienced < len(self.crew) / 2:
              raise ValueError("Not enough experienced crew")

      all_active = True
      for member in self.crew:
          if not member.is_active:
              all_active = False
      if not all_active:
          raise ValueError("All crew members must be active")

      return self
  \<close>
  Each loop is a \<open>fold\<close> over the crew that threads the variable the loop updates.
  \<open>len(self.crew) / 2\<close> is Python's true division, and the comparison of the
  integer count with it is exact: both are taken in the rationals.
\<close>

definition validate_mission_rules :: "SpaceMission \<Rightarrow> string + SpaceMission" where
  \<open>validate_mission_rules self =
     (if \<not> prefix ''M'' (mission_id self) then
        Inl ''Mission ID must start with "M"''
      else
        let has_leader =
              fold (\<lambda>member has_leader.
                      if rank member = captain \<or> rank member = commander then True
                      else has_leader)
                   (crew self) False
        in
        if \<not> has_leader then
          Inl ''Mission must have at least one Commander or Captain''
        else if duration_days self > 365 \<and>
                (let exprienced =
                       fold (\<lambda>member exprienced.
                               if years_experience member \<ge> 5 then exprienced + 1
                               else exprienced)
                            (crew self) (0 :: int)
                 in (of_int exprienced :: rat) < of_nat (length (crew self)) / 2) then
          Inl ''Not enough experienced crew''
        else
          let all_active =
                fold (\<lambda>member all_active. if \<not> is_active member then False else all_active)
                     (crew self) True
          in
          if \<not> all_active then Inl ''All crew members must be active''
          else Inr self)\<close>

definition validate_SpaceMission :: "conversions \<Rightarrow> raw_values \<Rightarrow> SpaceMission result" where
  "validate_SpaceMission cv rv =
     after_fields (field_phase (fields_SpaceMission cv rv)) validate_mission_rules"

text \<open>
  The four checks of the validator as rules in the specification's sense, in the
  validator's order: the identifier prefix, a leader in the crew, at least half of the
  crew experienced on a long mission, and every member active.
\<close>

definition experienced :: "CrewMember list \<Rightarrow> nat" where
  "experienced ms = length (filter (\<lambda>m. 5 \<le> years_experience m) ms)"

definition SpaceMission_rules :: "SpaceMission rule list" where
  \<open>SpaceMission_rules =
     [(\<lambda>m. prefix ''M'' (mission_id m),
         ''Mission ID must start with "M"''),
      (\<lambda>m. \<exists>x \<in> set (crew m). rank x = captain \<or> rank x = commander,
         ''Mission must have at least one Commander or Captain''),
      (\<lambda>m. 365 < duration_days m \<longrightarrow>
             \<not> (of_nat (experienced (crew m)) :: rat) < of_nat (length (crew m)) / 2,
         ''Not enough experienced crew''),
      (\<lambda>m. \<forall>x \<in> set (crew m). is_active x,
         ''All crew members must be active'')]\<close>

section \<open>The declarations read field by field\<close>

text \<open>
  Modelled from the spec: what a field declaration accepts, read directly off the raw
  input, apart from the engine and its violations (the library's reading of
  \<open>Field(...)\<close> is absent from the sources).  A string field with \<open>min_length\<close> and
  \<open>max_length\<close> accepts a string whose length lies between the two, and its value is
  that string.
\<close>

definition str_in :: "raw_values \<Rightarrow> string \<Rightarrow> nat \<Rightarrow> nat \<Rightarrow> string option" where
  "str_in rv fname lo hi =
     (case map_of rv fname of
        Some (RStr s) \<Rightarrow> if lo \<le> length s \<and> length s \<le> hi then Some s else None
      | _ \<Rightarrow> None)"

text \<open>
  Modelled from the spec: a string field with a default and no constraint accepts any
  string, and takes the default when absent.
\<close>

definition plain_str_in :: "raw_values \<Rightarrow> string \<Rightarrow> string \<Rightarrow> string option" where
  "plain_str_in rv fname dflt =
     (case map_of rv fname of
        None \<Rightarrow> Some dflt
      | Some (RStr s) \<Rightarrow> Some s
      | _ \<Rightarrow> None)"

text \<open>
  Modelled from the spec: an optional string field with \<open>max_length\<close> and the default
  \<open>None\<close> accepts an absent value and \<open>None\<close>, as no value, and a string no longer
  than the bound.
\<close>

definition optional_str_in :: "raw_values \<Rightarrow> string \<Rightarrow> nat \<Rightarrow> string option option" where
  "optional_str_in rv fname hi =
     (case map_of rv fname of
        None \<Rightarrow> Some None
      | Some RNone \<Rightarrow> Some None
      | Some (RStr s) \<Rightarrow> if length s \<le> hi then Some (Some s) else None
      | _ \<Rightarrow> None)"

text \<open>
  Modelled from the spec: a numeric field with \<open>ge\<close> and \<open>le\<close> accepts a number
  between the two: an integer field an integer or a string that the injected conversion
  reads as one, a float field also an integer, read as a float.
\<close>

definition int_in :: "conversions \<Rightarrow> raw_values \<Rightarrow> string \<Rightarrow> int \<Rightarrow> int \<Rightarrow> int option" where
  "int_in cv rv fname lo hi =
     (case (case map_of rv fname of
              Some (RInt i) \<Rightarrow> Some i
            | Some (RStr s) \<Rightarrow> parse_int cv s
            | _ \<Rightarrow> None) of
        Some i \<Rightarrow> if lo \<le> i \<and> i \<le> hi then Some i else None
      | None \<Rightarrow> None)"

definition float_in :: "conversions \<Rightarrow> raw_values \<Rightarrow> string \<Rightarrow> rat \<Rightarrow> rat \<Rightarrow> rat option" where
  "float_in cv rv fname lo hi =
     (case (case map_of rv fname of
              Some (RFloat x) \<Rightarrow> Some x
            | Some (RInt i) \<Rightarrow> Some (of_int i)
            | Some (RStr s) \<Rightarrow> parse_float cv s
            | _ \<Rightarrow> None) of
        Some x \<Rightarrow> if lo \<le> x \<and> x \<le> hi then Some x else None
      | None \<Rightarrow> None)"

text \<open>
  Modelled from the spec: a timestamp field accepts a timestamp or a string that the
  injected conversion reads as one.
\<close>

definition datetime_in :: "conversions \<Rightarrow> raw_values \<Rightarrow> string \<Rightarrow> datetime option" where
  "datetime_in cv rv fname =
     (case map_of rv fname of
        Some (RDatetime d) \<Rightarrow> Some d
      | Some (RStr s) \<Rightarrow> parse_datetime cv s
      | _ \<Rightarrow> None)"

text \<open>
  Modelled from the spec: a boolean field with a default accepts a boolean and takes
  the default when absent.
\<close>

definition bool_in :: "raw_values \<Rightarrow> string \<Rightarrow> bool \<Rightarrow> bool option" where
  "bool_in rv fname dflt =
     (case map_of rv fname of
        None \<Rightarrow> Some dflt
      | Some (RBool b) \<Rightarrow> Some b
      | _ \<Rightarrow> None)"

text \<open>
  Modelled from the spec: an enum field accepts the value of one of the members, and
  its value is that member.
\<close>

definition enum_in :: "raw_values \<Rightarrow> string \<Rightarrow> (string \<Rightarrow> 'e option) \<Rightarrow> 'e option" where
  "enum_in rv fname by_value =
     (case map_of rv fname of
        Some (RStr s) \<Rightarrow> by_value s
      | _ \<Rightarrow> None)"

text \<open>
  Modelled from the spec: a list field with \<open>min_length\<close> and \<open>max_length\<close> accepts
  a list whose elements are all accepted and whose length lies between the two.
\<close>

definition list_in ::
    "raw_values \<Rightarrow> string \<Rightarrow> nat \<Rightarrow> nat \<Rightarrow> (raw \<Rightarrow> 'a option) \<Rightarrow> 'a list option" where
  "list_in rv fname lo hi element =
     (case map_of rv fname of
        Some (RList ws) \<Rightarrow>
          (case those (map element ws) of
             Some xs \<Rightarrow> if lo \<le> length xs \<and> length xs \<le> hi then Some xs else None
           | None \<Rightarrow> None)
      | _ \<Rightarrow> None)"

text \<open>
  Modelled from the spec: a crew member nested in a mission is accepted when it is the
  mapping of the fields of \<open>CrewMember\<close> and each field is accepted by its
  declaration; its value is the record of the values of the fields.
\<close>

definition CrewMember_in :: "conversions \<Rightarrow> raw \<Rightarrow> CrewMember option" where
  "CrewMember_in cv w =
     (case w of
        RDict kvs \<Rightarrow>
          do {
            a \<leftarrow> str_in kvs ''member_id'' 3 10;
            b \<leftarrow> str_in kvs ''name'' 2 50;
            c \<leftarrow> enum_in kvs ''rank'' Rank_by_value;
            d \<leftarrow> int_in cv kvs ''age'' 18 80;
            e \<leftarrow> str_in kvs ''specialization'' 3 30;
            f \<leftarrow> int_in cv kvs ''years_experience'' 0 50;
            g \<leftarrow> bool_in kvs ''is_active'' True;
            Some \<lparr>member_id = a, name = b, rank = c, age = d, specialization = e,
                  years_experience = f, is_active = g\<rparr>
          }
      | _ \<Rightarrow> None)"

text \<open>
  The names, in the order given, of the fields whose declaration rejects the input.
\<close>

definition rejected :: "(string \<times> bool) list \<Rightarrow> string list" where
  "rejected checks = map fst (filter snd checks)"

section \<open>The raw-value representation of a validated record\<close>

text \<open>
  Modelled from the spec: the conversion of a validated record back to raw values
  (section 8, idempotence) has no function in the sources.  Every field is given under
  its name, a scalar as the raw value of its own type, an enum member by its value, an
  absent optional as \<open>RNone\<close> and a nested record as the mapping of its fields.
\<close>

definition raw_of_optional :: "string option \<Rightarrow> raw" where
  "raw_of_optional x = (case x of None \<Rightarrow> RNone | Some s \<Rightarrow> RStr s)"

text \<open>
  Modelled from the spec: the raw-value representation of a validated \<open>SpaceStation\<close>.
\<close>

definition raw_of_SpaceStation :: "SpaceStation \<Rightarrow> raw_values" where
  "raw_of_SpaceStation s =
     [(''station_id'', RStr (station_id s)),
      (''name'', RStr (SpaceStation.name s)),
      (''crew_size'', RInt (crew_size s)),
      (''power_level'', RFloat (power_level s)),
      (''oxygen_level'', RFloat (oxygen_level s)),
      (''last_maintenance'', RDatetime (last_maintenance s)),
      (''is_operational'', RBool (is_operational s)),
      (''notes'', raw_of_optional (notes s))]"

text \<open>
  Modelled from the spec: the raw-value representation of a validated \<open>AlienContact\<close>.
\<close>

definition raw_of_AlienContact :: "AlienContact \<Rightarrow> raw_values" where
  "raw_of_AlienContact c =
     [(''contact_id'', RStr (contact_id c)),
      (''timestamp'', RDatetime (timestamp c)),
      (''location'', RStr (location c)),
      (''contact_type'', RStr (ContactType_value (contact_type c))),
      (''signal_strength'', RFloat (signal_strength c)),
      (''duration_minutes'', RInt (duration_minutes c)),
      (''witness_count'', RInt (witness_count c)),
      (''message_received'', raw_of_optional (message_received c)),
      (''is_verified'', RBool (is_verified c))]"

text \<open>
  Modelled from the spec: the raw-value representation of a validated \<open>CrewMember\<close>.
\<close>

definition raw_of_CrewMember :: "CrewMember \<Rightarrow> raw_values" where
  "raw_of_CrewMember m =
     [(''member_id'', RStr (member_id m)),
      (''name'', RStr (CrewMember.name m)),
      (''rank'', RStr (Rank_value (rank m))),
      (''age'', RInt (age m)),
      (''specialization'', RStr (specialization m)),
      (''years_experience'', RInt (years_experience m)),
      (''is_active'', RBool (is_active m))]"

text \<open>
  Modelled from the spec: the raw-value representation of a validated \<open>SpaceMission\<close>.
\<close>

definition raw_of_SpaceMission :: "SpaceMission \<Rightarrow> raw_values" where
  "raw_of_SpaceMission m =
     [(''mission_id'', RStr (mission_id m)),
      (''mission_name'', RStr (mission_name m)),
      (''destination'', RStr (destination m)),
      (''launch_date'', RDatetime (launch_date m)),
      (''duration_days'', RInt (duration_days m)),
      (''crew'', RList (map (\<lambda>x. RDict (raw_of_CrewMember x)) (crew m))),
      (''mission_status'', RStr (mission_status m)),
      (''budget_millions'', RFloat (budget_millions m))]"

section \<open>Inputs of the scripts\<close>

text \<open>
  The conversions used on the concrete inputs below: the timestamps that the scripts
  pass are read from a table; no string is read as a number.
\<close>

definition script_conversions :: conversions where
  "script_conversions =
     \<lparr>parse_int = (\<lambda>s. None),
      parse_float = (\<lambda>s. None),
      parse_datetime = map_of
        [(''2026-02-01T10:30:00'', Datetime 2026 2 1 10 30 0),
         (''2026-02-06T12:30:00'', Datetime 2026 2 6 12 30 0),
         (''2026-02-06T13:00:00'', Datetime 2026 2 6 13 0 0),
         (''2026-03-01T09:00:00'', Datetime 2026 3 1 9 0 0),
         (''2026-04-01T10:00:00'', Datetime 2026 4 1 10 0 0)]\<rparr>"

text \<open>The valid station of \<open>ex0\<close>, and the same station with two fields out of range.\<close>

definition station_iss :: raw_values where
  "station_iss =
     [(''station_id'', RStr ''ISS001''),
      (''name'', RStr ''International Space Station''),
      (''crew_size'', RInt 6),
      (''power_level'', RFloat (171 / 2)),
      (''oxygen_level'', RFloat (923 / 10)),
      (''last_maintenance'', RStr ''2026-02-01T10:30:00''),
      (''notes'', RStr ''All systems nominal.'')]"

definition station_two_bad :: raw_values where
  "station_two_bad =
     [(''station_id'', RStr ''BAD01''),
      (''name'', RStr ''Bad Station''),
      (''crew_size'', RInt 30),
      (''power_level'', RFloat 150),
      (''oxygen_level'', RFloat 50),
      (''last_maintenance'', RStr ''2026-02-01T10:30:00'')]"

text \<open>
  Contact reports shaped like the two of \<open>ex1\<close>, with the identifier, the contact type,
  the signal strength, the number of witnesses and the message left open (\<open>None\<close>
  omits the message).
\<close>

definition contact_raw :: "string \<Rightarrow> string \<Rightarrow> rat \<Rightarrow> int \<Rightarrow> raw option \<Rightarrow> raw_values" where
  "contact_raw cid ctype strength witnesses message =
     [(''contact_id'', RStr cid),
      (''timestamp'', RStr ''2026-02-06T13:00:00''),
      (''location'', RStr ''Desert Zone''),
      (''contact_type'', RStr ctype),
      (''signal_strength'', RFloat strength),
      (''duration_minutes'', RInt 30),
      (''witness_count'', RInt witnesses)]
     @ (case message of None \<Rightarrow> [] | Some m \<Rightarrow> [(''message_received'', m)])
     @ [(''is_verified'', RBool False)]"

definition contact_record ::
    "string \<Rightarrow> ContactType \<Rightarrow> rat \<Rightarrow> int \<Rightarrow> string option \<Rightarrow> AlienContact" where
  "contact_record cid ctype strength witnesses message =
     \<lparr>contact_id = cid, timestamp = Datetime 2026 2 6 13 0 0, location = ''Desert Zone'',
      contact_type = ctype, signal_strength = strength, duration_minutes = 30,
      witness_count = witnesses, message_received = message, is_verified = False\<rparr>"

text \<open>
  Missions shaped like those of \<open>ex2\<close>, with the identifier, the duration and the crew
  left open; of a crew member, the identifier, the rank and the years of experience.
\<close>

definition member_raw :: "string \<Rightarrow> string \<Rightarrow> int \<Rightarrow> raw" where
  "member_raw mid mrank years =
     RDict [(''member_id'', RStr mid),
            (''name'', RStr ''Test Member''),
            (''rank'', RStr mrank),
            (''age'', RInt 30),
            (''specialization'', RStr ''Support''),
            (''years_experience'', RInt years),
            (''is_active'', RBool True)]"

definition member_record :: "string \<Rightarrow> Rank \<Rightarrow> int \<Rightarrow> CrewMember" where
  "member_record mid mrank years =
     \<lparr>member_id = mid, name = ''Test Member'', rank = mrank, age = 30,
      specialization = ''Support'', years_experience = years, is_active = True\<rparr>"

definition mission_raw :: "string \<Rightarrow> int \<Rightarrow> raw list \<Rightarrow> raw_values" where
  "mission_raw mid days members =
     [(''mission_id'', RStr mid),
      (''mission_name'', RStr ''Test Mission''),
      (''destination'', RStr ''Moon''),
      (''launch_date'', RStr ''2026-04-01T10:00:00''),
      (''duration_days'', RInt days),
      (''budget_millions'', RFloat 100),
      (''crew'', RList members)]"

definition mission_record :: "string \<Rightarrow> int \<Rightarrow> CrewMember list \<Rightarrow> SpaceMission" where
  "mission_record mid days members =
     \<lparr>mission_id = mid, mission_name = ''Test Mission'', destination = ''Moon'',
      launch_date = Datetime 2026 4 1 10 0 0, duration_days = days, crew = members,
      mission_status = ''planned'', budget_millions = 100\<rparr>"

section \<open>Properties of the engine\<close>

subsection \<open>Results\<close>

lemma at_loc_Inr_iff [simp]: "at_loc i r = Inr v \<longleftrightarrow> r = Inr v"
  by (cases r) (simp_all add: at_loc_def)

lemma at_loc_Inl_iff: "at_loc i r = Inl es \<longleftrightarrow> (\<exists>es'. r = Inl es' \<and> es = map (prefix_loc i) es')"
  by (cases r) (auto simp: at_loc_def)

lemma and_then_Inr_iff: "and_then r f = Inr v \<longleftrightarrow> (\<exists>u. r = Inr u \<and> f u = Inr v)"
  by (cases r) (simp_all add: and_then_def)

lemma and_then_Inl_iff:
  "and_then r f = Inl es \<longleftrightarrow> r = Inl es \<or> (\<exists>u. r = Inr u \<and> f u = Inl es)"
  by (cases r) (simp_all add: and_then_def)

lemma constrain_Inr_iff: "constrain ok cs v = Inr w \<longleftrightarrow> w = v \<and> (\<forall>c \<in> set cs. ok c)"
proof (cases "filter (\<lambda>c. \<not> ok c) cs")
  case Nil
  then show ?thesis
    by (auto simp: constrain_def filter_empty_conv)
next
  case (Cons c bad)
  then have "c \<in> set (filter (\<lambda>c. \<not> ok c) cs)"
    by simp
  then have "c \<in> set cs" and "\<not> ok c"
    by simp_all
  with Cons show ?thesis
    by (auto simp: constrain_def)
qed

lemma constrain_Inl_iff:
  "constrain ok cs v = Inl es \<longleftrightarrow>
     filter (\<lambda>c. \<not> ok c) cs \<noteq> [] \<and> es = map (ConstraintViolation []) (filter (\<lambda>c. \<not> ok c) cs)"
  by (auto simp: constrain_def split: list.splits)

lemma field_level_prefix_loc [simp]: "field_level (prefix_loc i e) = field_level e"
  by (cases e) simp_all

subsection \<open>A failed check reports violations, and only field-level ones\<close>

lemma properI: "(\<And>es. r = Inl es \<Longrightarrow> es \<noteq> [] \<and> (\<forall>e \<in> set es. field_level e)) \<Longrightarrow> proper r"
  by (simp add: proper_def)

lemma proper_Inr [simp]: "proper (Inr v)"
  by (simp add: proper_def)

lemma proper_coerce_str [simp]: "proper (coerce_str v)"
  by (cases v) (simp_all add: proper_def coerce_str_def)

lemma proper_coerce_bool [simp]: "proper (coerce_bool v)"
  by (cases v) (simp_all add: proper_def coerce_bool_def)

lemma proper_coerce_int [simp]: "proper (coerce_int cv v)"
  by (cases v) (simp_all add: proper_def coerce_int_def split: option.splits)

lemma proper_coerce_float [simp]: "proper (coerce_float cv v)"
  by (cases v) (simp_all add: proper_def coerce_float_def split: option.splits)

lemma proper_coerce_datetime [simp]: "proper (coerce_datetime cv v)"
  by (cases v) (simp_all add: proper_def coerce_datetime_def split: option.splits)

lemma proper_coerce_enum [simp]: "proper (coerce_enum by_value v)"
  by (cases v) (simp_all add: proper_def coerce_enum_def split: option.splits)

lemma proper_constrain [simp]: "proper (constrain ok cs v)"
  by (auto simp: proper_def constrain_Inl_iff)

lemma proper_and_then: "proper r \<Longrightarrow> (\<And>u. proper (f u)) \<Longrightarrow> proper (and_then r f)"
  unfolding proper_def and_then_Inl_iff by blast

lemma proper_at_loc: "proper r \<Longrightarrow> proper (at_loc i r)"
  by (auto simp: proper_def at_loc_Inl_iff)

lemma proper_str_of [simp]: "proper (str_of cs v)"
  by (simp add: str_of_def proper_and_then)

lemma proper_int_of [simp]: "proper (int_of cv cs v)"
  by (simp add: int_of_def proper_and_then)

lemma proper_float_of [simp]: "proper (float_of cv cs v)"
  by (simp add: float_of_def proper_and_then)

lemma proper_optional: "(\<And>w. proper (chk w)) \<Longrightarrow> proper (optional chk v)"
  by (cases v) (simp_all add: optional_def proper_and_then)

lemma proper_check_items: "(\<And>w. proper (chk w)) \<Longrightarrow> proper (check_items chk i xs)"
proof (induction xs arbitrary: i)
  case Nil
  show ?case by simp
next
  case (Cons x xs)
  have hd: "proper (at_loc (Idx i) (chk x))"
    by (simp add: Cons.prems proper_at_loc)
  have tl: "proper (check_items chk (Suc i) xs)"
    by (rule Cons.IH) (rule Cons.prems)
  show ?case
    using hd tl by (auto simp: proper_def split: sum.splits)
qed

lemma proper_list_of: "(\<And>w. proper (chk w)) \<Longrightarrow> proper (list_of cs chk v)"
  by (cases v) (simp_all add: list_of_def proper_and_then proper_check_items, simp_all add: proper_def)

lemma proper_record_of: "(\<And>kvs. proper (validate kvs)) \<Longrightarrow> proper (record_of validate v)"
  by (cases v) (simp_all add: record_of_def, simp_all add: proper_def)

lemma proper_check_field: "(\<And>w. proper (chk w)) \<Longrightarrow> proper (snd (check_field fname dflt chk rv))"
  by (auto simp: check_field_def proper_at_loc split: option.splits, simp add: proper_def)

subsection \<open>The field pass\<close>

lemma report_no_fields [simp]: "report (no_fields mk) = []"
  by (simp add: report_def no_fields_def)

lemma report_and_field [simp]:
  "report (and_field acc fld) = report acc @ [(fst fld, errs_of (snd fld))]"
  by (simp add: report_def and_field_def)

lemma snd_no_fields [simp]: "snd (no_fields mk) = Some mk"
  by (simp add: no_fields_def)

lemma snd_and_field_Some_iff:
  "snd (and_field acc fld) = Some r \<longleftrightarrow> (\<exists>mk v. snd acc = Some mk \<and> snd fld = Inr v \<and> r = mk v)"
  by (cases "snd fld") (auto simp: and_field_def)

lemma fst_check_field [simp]: "fst (check_field fname dflt chk rv) = fname"
  by (simp add: check_field_def)

lemma snd_check_field_Inr_iff:
  "snd (check_field fname dflt chk rv) = Inr v \<longleftrightarrow>
     (\<exists>w. raw_value fname dflt rv = Some w \<and> chk w = Inr v)"
  by (simp add: check_field_def split: option.splits)

lemma errs_of_Inr [simp]: "errs_of (Inr v) = []"
  by (simp add: errs_of_def)

lemma errs_of_Inl [simp]: "errs_of (Inl es) = es"
  by (simp add: errs_of_def)

lemma consistent_no_fields [simp]: "consistent (no_fields mk)"
  by (simp add: consistent_def field_violations_def)

lemma consistent_and_field:
  assumes "consistent acc" and "proper (snd fld)"
  shows "consistent (and_field acc fld)"
proof (cases "snd fld")
  case (Inl es)
  with assms(2) have "es \<noteq> []" and "\<forall>e \<in> set es. field_level e"
    by (simp_all add: proper_def)
  with assms(1) Inl show ?thesis
    by (auto simp: consistent_def field_violations_def and_field_def report_def)
next
  case (Inr v)
  with assms(1) show ?thesis
    by (auto simp: consistent_def field_violations_def and_field_def report_def)
qed

lemma consistent_and_check_field:
  "consistent acc \<Longrightarrow> (\<And>w. proper (chk w)) \<Longrightarrow>
     consistent (and_field acc (check_field fname dflt chk rv))"
  by (simp add: consistent_and_field proper_check_field)

lemma proper_field_phase: "consistent fs \<Longrightarrow> proper (field_phase fs)"
  by (auto simp: consistent_def proper_def field_phase_def split: option.splits)

lemma offending_Nil_iff: "offending fs = [] \<longleftrightarrow> field_violations fs = []"
  by (auto simp: offending_def field_violations_def filter_empty_conv)

lemma field_phase_offending:
  "consistent fs \<Longrightarrow> offending fs \<noteq> [] \<Longrightarrow> field_phase fs = Inl (field_violations fs)"
  by (auto simp: consistent_def offending_Nil_iff field_phase_def split: option.splits)

lemma field_phase_Inr_iff:
  "consistent fs \<Longrightarrow> (\<exists>r. field_phase fs = Inr r) \<longleftrightarrow> offending fs = []"
  by (auto simp: consistent_def offending_Nil_iff field_phase_def split: option.splits)

lemma field_phase_Inr_snd: "field_phase fs = Inr r \<longleftrightarrow> snd fs = Some r"
  by (simp add: field_phase_def split: option.splits)

lemma consistent_CrewMember [simp]: "consistent (fields_CrewMember cv rv)"
  unfolding fields_CrewMember_def
  by (intro consistent_and_check_field consistent_no_fields proper_optional) simp_all

lemma proper_validate_CrewMember [simp]: "proper (validate_CrewMember cv rv)"
  by (simp add: validate_CrewMember_def proper_field_phase)

lemma consistent_SpaceStation [simp]: "consistent (fields_SpaceStation cv rv)"
  unfolding fields_SpaceStation_def
  by (intro consistent_and_check_field consistent_no_fields proper_optional) simp_all

lemma consistent_AlienContact [simp]: "consistent (fields_AlienContact cv rv)"
  unfolding fields_AlienContact_def
  by (intro consistent_and_check_field consistent_no_fields proper_optional) simp_all

lemma consistent_SpaceMission [simp]: "consistent (fields_SpaceMission cv rv)"
  unfolding fields_SpaceMission_def
  by (intro consistent_and_check_field consistent_no_fields proper_list_of proper_record_of) simp_all

lemmas engine_defs = field_phase_def and_field_def no_fields_def check_field_def raw_value_def
  errs_of_def at_loc_def and_then_def str_of_def int_of_def float_of_def optional_def
  coerce_str_def coerce_int_def coerce_float_def coerce_bool_def coerce_datetime_def
  coerce_enum_def constrain_def list_of_def record_of_def field_violations_def report_def
  offending_def

subsection \<open>The validators and their rules\<close>

lemma find_failing: "find (\<lambda>rule. \<not> fst rule r) rules = (case failing rules r of [] \<Rightarrow> None | x # xs \<Rightarrow> Some x)"
  by (induction rules) (simp_all add: failing_def)

lemma first_failure_hd:
  "failing rules r \<noteq> [] \<Longrightarrow> first_failure rules r = Some (snd (hd (failing rules r)))"
  by (cases "failing rules r") (simp_all add: first_failure_def find_failing)

lemma first_failure_None: "failing rules r = [] \<Longrightarrow> first_failure rules r = None"
  by (simp add: first_failure_def find_failing)

lemma later_failing_distinct:
  assumes "distinct (map snd rules)" and "x \<in> set (tl (failing rules r))"
  shows "snd x \<noteq> snd (hd (failing rules r))"
proof -
  have "distinct (map snd (failing rules r))"
    using assms(1) by (simp add: failing_def distinct_map_filter)
  with assms(2) show ?thesis
    by (cases "failing rules r") auto
qed

lemma business_rules_first_failure:
  "validate_business_rules c =
     (case first_failure AlienContact_rules c of None \<Rightarrow> Inr c | Some msg \<Rightarrow> Inl msg)"
  by (simp add: validate_business_rules_def first_failure_def AlienContact_rules_def not_less)

lemma fold_has_leader:
  "fold (\<lambda>member has_leader. if P member then True else has_leader) xs b
     = (b \<or> (\<exists>x \<in> set xs. P x))"
  by (induction xs arbitrary: b) auto

lemma fold_exprienced:
  "fold (\<lambda>member exprienced. if P member then exprienced + 1 else exprienced) xs (k :: int)
     = k + int (length (filter P xs))"
  by (induction xs arbitrary: k) auto

lemma fold_all_active:
  "fold (\<lambda>member all_active. if \<not> P member then False else all_active) xs b
     = (b \<and> (\<forall>x \<in> set xs. P x))"
  by (induction xs arbitrary: b) auto

lemma mission_rules_first_failure:
  "validate_mission_rules m =
     (case first_failure SpaceMission_rules m of None \<Rightarrow> Inr m | Some msg \<Rightarrow> Inl msg)"
  by (simp add: validate_mission_rules_def first_failure_def SpaceMission_rules_def
      fold_has_leader fold_exprienced fold_all_active experienced_def Let_def)

lemma distinct_AlienContact_messages: "distinct (map snd AlienContact_rules)"
  by (simp add: AlienContact_rules_def)

lemma distinct_SpaceMission_messages: "distinct (map snd SpaceMission_rules)"
  by (simp add: SpaceMission_rules_def)

lemma after_fields_first_failure:
  assumes "\<And>r. rule r = (case first_failure rules r of None \<Rightarrow> Inr r | Some msg \<Rightarrow> Inl msg)"
    and "fr = Inr r" and "failing rules r \<noteq> []"
  shows "after_fields fr rule = Inl [RuleViolation (snd (hd (failing rules r)))]"
  using assms by (simp add: after_fields_def first_failure_hd)

lemma after_fields_all_pass:
  assumes "\<And>r. rule r = (case first_failure rules r of None \<Rightarrow> Inr r | Some msg \<Rightarrow> Inl msg)"
    and "fr = Inr r" and "failing rules r = []"
  shows "after_fields fr rule = Inr r"
  using assms by (simp add: after_fields_def first_failure_None)

lemma after_fields_Inl [simp]: "after_fields (Inl es) rule = Inl es"
  by (simp add: after_fields_def)

subsection \<open>The two phases\<close>

lemma gate:
  assumes "consistent fs" and "offending fs \<noteq> []"
  shows "after_fields (field_phase fs) rule = Inl (field_violations fs)"
    and "field_violations fs \<noteq> []"
    and "\<forall>e \<in> set (field_violations fs). field_level e"
  using assms by (simp_all add: field_phase_offending offending_Nil_iff consistent_def)

lemmas contact_eval = fields_AlienContact_def contact_raw_def contact_record_def
  script_conversions_def ContactType_by_value_def engine_defs

lemmas mission_eval = fields_SpaceMission_def mission_raw_def mission_record_def member_raw_def
  member_record_def validate_CrewMember_def fields_CrewMember_def script_conversions_def
  Rank_by_value_def engine_defs

lemma validate_AlienContact_fields_ok:
  "field_phase (fields_AlienContact cv rv) = Inr c \<Longrightarrow>
   validate_AlienContact cv rv =
     (case validate_business_rules c of Inl msg \<Rightarrow> Inl [RuleViolation msg] | Inr c' \<Rightarrow> Inr c')"
  by (simp add: validate_AlienContact_def after_fields_def)

lemma validate_SpaceMission_fields_ok:
  "field_phase (fields_SpaceMission cv rv) = Inr m \<Longrightarrow>
   validate_SpaceMission cv rv =
     (case validate_mission_rules m of Inl msg \<Rightarrow> Inl [RuleViolation msg] | Inr m' \<Rightarrow> Inr m')"
  by (simp add: validate_SpaceMission_def after_fields_def)

lemma fields_ok_no_violations:
  "consistent fs \<Longrightarrow> field_phase fs = Inr r \<Longrightarrow> field_violations fs = []"
  by (auto simp: consistent_def field_phase_def split: option.splits)

subsection \<open>A scalar field reports at most one violation\<close>

lemma single_Nil [simp]: "single loc []"
  by (simp add: single_def)

lemma single_coerce_str [simp]: "single [] (errs_of (coerce_str v))"
  by (cases v) (simp_all add: coerce_str_def single_def)

lemma single_coerce_bool [simp]: "single [] (errs_of (coerce_bool v))"
  by (cases v) (simp_all add: coerce_bool_def single_def)

lemma single_coerce_int [simp]: "single [] (errs_of (coerce_int cv v))"
  by (cases v) (simp_all add: coerce_int_def single_def split: option.splits)

lemma single_coerce_float [simp]: "single [] (errs_of (coerce_float cv v))"
  by (cases v) (simp_all add: coerce_float_def single_def split: option.splits)

lemma single_coerce_datetime [simp]: "single [] (errs_of (coerce_datetime cv v))"
  by (cases v) (simp_all add: coerce_datetime_def single_def split: option.splits)

lemma single_coerce_enum [simp]: "single [] (errs_of (coerce_enum by_value v))"
  by (cases v) (simp_all add: coerce_enum_def single_def split: option.splits)

lemma single_constrain_one [simp]: "single [] (errs_of (constrain ok [c] v))"
  by (simp add: constrain_def single_def)

lemma single_constrain_two: "ok c1 \<or> ok c2 \<Longrightarrow> single [] (errs_of (constrain ok [c1, c2] v))"
  by (auto simp: constrain_def single_def)

lemma single_and_then:
  "single loc (errs_of r) \<Longrightarrow> (\<And>u. single loc (errs_of (f u))) \<Longrightarrow>
   single loc (errs_of (and_then r f))"
  by (cases r) (simp_all add: and_then_def)

lemma single_str_of_range:
  "lo \<le> hi \<Longrightarrow> single [] (errs_of (str_of [MinLength lo, MaxLength hi] v))"
  unfolding str_of_def
  by (intro single_and_then single_constrain_two single_coerce_str) auto

lemma single_str_of_max [simp]: "single [] (errs_of (str_of [MaxLength hi] v))"
  by (simp add: str_of_def single_and_then)

lemma single_int_of_range:
  "lo \<le> hi \<Longrightarrow> single [] (errs_of (int_of cv [Ge lo, Le hi] v))"
  unfolding int_of_def
  by (intro single_and_then single_constrain_two single_coerce_int) auto

lemma single_float_of_range:
  "lo \<le> hi \<Longrightarrow> single [] (errs_of (float_of cv [Ge lo, Le hi] v))"
  unfolding float_of_def
  by (intro single_and_then single_constrain_two single_coerce_float) auto

lemma single_optional:
  "(\<And>w. single [] (errs_of (chk w))) \<Longrightarrow> single [] (errs_of (optional chk v))"
  by (cases v) (simp_all add: optional_def single_and_then)

lemma violation_loc_prefix_loc:
  "field_level e \<Longrightarrow> violation_loc (prefix_loc i e) = i # violation_loc e"
  by (cases e) simp_all

lemma single_check_field:
  assumes "\<And>w. single [] (errs_of (chk w))"
  shows "single [Key fname] (errs_of (snd (check_field fname dflt chk rv)))"
proof (cases "raw_value fname dflt rv")
  case None
  then show ?thesis
    by (simp add: check_field_def single_def)
next
  case (Some w)
  from assms [of w] show ?thesis
    by (cases "chk w")
       (auto simp: check_field_def Some single_def at_loc_def violation_loc_prefix_loc)
qed

lemma locs_of_singles:
  "\<forall>entry \<in> set rep. single [Key (fst entry)] (snd entry) \<Longrightarrow>
   map violation_loc (concat (map snd rep))
     = map (\<lambda>f. [Key f]) (map fst (filter (\<lambda>entry. snd entry \<noteq> []) rep))"
  by (induction rep) (auto simp: single_def)

lemma report_SpaceStation:
  "report (fields_SpaceStation cv rv) =
     [(''station_id'', errs_of (snd (check_field ''station_id'' None (str_of [MinLength 3, MaxLength 10]) rv))),
      (''name'', errs_of (snd (check_field ''name'' None (str_of [MinLength 1, MaxLength 50]) rv))),
      (''crew_size'', errs_of (snd (check_field ''crew_size'' None (int_of cv [Ge 1, Le 20]) rv))),
      (''power_level'', errs_of (snd (check_field ''power_level'' None (float_of cv [Ge 0, Le 100]) rv))),
      (''oxygen_level'', errs_of (snd (check_field ''oxygen_level'' None (float_of cv [Ge 0, Le 100]) rv))),
      (''last_maintenance'', errs_of (snd (check_field ''last_maintenance'' None (coerce_datetime cv) rv))),
      (''is_operational'', errs_of (snd (check_field ''is_operational'' (Some (RBool True)) coerce_bool rv))),
      (''notes'', errs_of (snd (check_field ''notes'' (Some RNone) (optional (str_of [MaxLength 200])) rv)))]"
  by (simp add: fields_SpaceStation_def)

lemma singles_SpaceStation:
  "\<forall>entry \<in> set (report (fields_SpaceStation cv rv)). single [Key (fst entry)] (snd entry)"
  by (simp add: report_SpaceStation single_check_field single_str_of_range single_int_of_range
      single_float_of_range single_optional)

subsection \<open>Successful checks\<close>

lemma coerce_str_Inr_iff: "coerce_str w = Inr s \<longleftrightarrow> w = RStr s"
  by (cases w) (simp_all add: coerce_str_def)

lemma coerce_bool_Inr_iff: "coerce_bool w = Inr b \<longleftrightarrow> w = RBool b"
  by (cases w) (simp_all add: coerce_bool_def)

lemma coerce_int_RInt [simp]: "coerce_int cv (RInt i) = Inr i"
  by (simp add: coerce_int_def)

lemma coerce_float_RFloat [simp]: "coerce_float cv (RFloat x) = Inr x"
  by (simp add: coerce_float_def)

lemma coerce_datetime_RDatetime [simp]: "coerce_datetime cv (RDatetime d) = Inr d"
  by (simp add: coerce_datetime_def)

lemma str_of_Inr_iff:
  "str_of cs w = Inr s \<longleftrightarrow> w = RStr s \<and> (\<forall>c \<in> set cs. len_ok (length s) c)"
  by (auto simp: str_of_def and_then_Inr_iff coerce_str_Inr_iff constrain_Inr_iff)

lemma int_of_Inr_iff:
  "int_of cv cs w = Inr i \<longleftrightarrow> coerce_int cv w = Inr i \<and> (\<forall>c \<in> set cs. num_ok (of_int i) c)"
  by (auto simp: int_of_def and_then_Inr_iff constrain_Inr_iff)

lemma float_of_Inr_iff:
  "float_of cv cs w = Inr x \<longleftrightarrow> coerce_float cv w = Inr x \<and> (\<forall>c \<in> set cs. num_ok x c)"
  by (auto simp: float_of_def and_then_Inr_iff constrain_Inr_iff)

lemma optional_Inr_iff:
  "optional chk w = Inr x \<longleftrightarrow>
     (w = RNone \<and> x = None) \<or> (w \<noteq> RNone \<and> (\<exists>v. chk w = Inr v \<and> x = Some v))"
  by (cases w) (auto simp: optional_def and_then_Inr_iff)

lemma list_of_Inr_iff:
  "list_of cs chk w = Inr vs \<longleftrightarrow>
     (\<exists>xs. w = RList xs \<and> check_items chk 0 xs = Inr vs \<and> (\<forall>c \<in> set cs. len_ok (length vs) c))"
  by (cases w) (auto simp: list_of_def and_then_Inr_iff constrain_Inr_iff)

lemma record_of_Inr_iff:
  "record_of validate w = Inr r \<longleftrightarrow> (\<exists>kvs. w = RDict kvs \<and> validate kvs = Inr r)"
  by (cases w) (simp_all add: record_of_def)

lemma check_items_Cons_Inr_iff:
  "check_items chk i (x # xs) = Inr vs \<longleftrightarrow>
     (\<exists>v vs'. chk x = Inr v \<and> check_items chk (Suc i) xs = Inr vs' \<and> vs = v # vs')"
  by (cases "chk x"; cases "check_items chk (Suc i) xs") (auto simp: at_loc_def)

lemma check_items_Inr_iff:
  "check_items chk i xs = Inr vs \<longleftrightarrow> list_all2 (\<lambda>x v. chk x = Inr v) xs vs"
proof (induction xs arbitrary: i vs)
  case Nil
  show ?case by auto
next
  case (Cons x xs)
  show ?case
    unfolding check_items_Cons_Inr_iff Cons.IH by (auto simp: list_all2_Cons1)
qed

subsection \<open>Assembling the records\<close>

lemma and_field_SomeE:
  assumes "snd (and_field acc fld) = Some r"
  obtains mk v where "snd acc = Some mk" and "snd fld = Inr v" and "r = mk v"
  using assms by (auto simp: snd_and_field_Some_iff)

lemma and_field_SomeI:
  "snd acc = Some mk \<Longrightarrow> snd fld = Inr v \<Longrightarrow> snd (and_field acc fld) = Some (mk v)"
  by (simp add: snd_and_field_Some_iff)

lemma fields_SpaceStation_Inr_iff:
  "field_phase (fields_SpaceStation cv rv) = Inr s \<longleftrightarrow>
     snd (check_field ''station_id'' None (str_of [MinLength 3, MaxLength 10]) rv) = Inr (station_id s) \<and>
     snd (check_field ''name'' None (str_of [MinLength 1, MaxLength 50]) rv) = Inr (SpaceStation.name s) \<and>
     snd (check_field ''crew_size'' None (int_of cv [Ge 1, Le 20]) rv) = Inr (crew_size s) \<and>
     snd (check_field ''power_level'' None (float_of cv [Ge 0, Le 100]) rv) = Inr (power_level s) \<and>
     snd (check_field ''oxygen_level'' None (float_of cv [Ge 0, Le 100]) rv) = Inr (oxygen_level s) \<and>
     snd (check_field ''last_maintenance'' None (coerce_datetime cv) rv) = Inr (last_maintenance s) \<and>
     snd (check_field ''is_operational'' (Some (RBool True)) coerce_bool rv) = Inr (is_operational s) \<and>
     snd (check_field ''notes'' (Some RNone) (optional (str_of [MaxLength 200])) rv) = Inr (notes s)"
  unfolding field_phase_Inr_snd fields_SpaceStation_def
  by (cases s) (auto simp: snd_and_field_Some_iff)

lemma fields_AlienContact_Inr_iff:
  "field_phase (fields_AlienContact cv rv) = Inr c \<longleftrightarrow>
     snd (check_field ''contact_id'' None (str_of [MinLength 5, MaxLength 15]) rv) = Inr (contact_id c) \<and>
     snd (check_field ''timestamp'' None (coerce_datetime cv) rv) = Inr (timestamp c) \<and>
     snd (check_field ''location'' None (str_of [MinLength 3, MaxLength 100]) rv) = Inr (location c) \<and>
     snd (check_field ''contact_type'' None (coerce_enum ContactType_by_value) rv) = Inr (contact_type c) \<and>
     snd (check_field ''signal_strength'' None (float_of cv [Ge 0, Le 10]) rv) = Inr (signal_strength c) \<and>
     snd (check_field ''duration_minutes'' None (int_of cv [Ge 1, Le 1440]) rv) = Inr (duration_minutes c) \<and>
     snd (check_field ''witness_count'' None (int_of cv [Ge 1, Le 100]) rv) = Inr (witness_count c) \<and>
     snd (check_field ''message_received'' (Some RNone) (optional (str_of [MaxLength 500])) rv)
       = Inr (message_received c) \<and>
     snd (check_field ''is_verified'' (Some (RBool False)) coerce_bool rv) = Inr (is_verified c)"
  unfolding field_phase_Inr_snd fields_AlienContact_def
  by (cases c) (auto simp: snd_and_field_Some_iff)

lemma fields_CrewMember_Inr_iff:
  "field_phase (fields_CrewMember cv rv) = Inr x \<longleftrightarrow>
     snd (check_field ''member_id'' None (str_of [MinLength 3, MaxLength 10]) rv) = Inr (member_id x) \<and>
     snd (check_field ''name'' None (str_of [MinLength 2, MaxLength 50]) rv) = Inr (CrewMember.name x) \<and>
     snd (check_field ''rank'' None (coerce_enum Rank_by_value) rv) = Inr (rank x) \<and>
     snd (check_field ''age'' None (int_of cv [Ge 18, Le 80]) rv) = Inr (age x) \<and>
     snd (check_field ''specialization'' None (str_of [MinLength 3, MaxLength 30]) rv) = Inr (specialization x) \<and>
     snd (check_field ''years_experience'' None (int_of cv [Ge 0, Le 50]) rv) = Inr (years_experience x) \<and>
     snd (check_field ''is_active'' (Some (RBool True)) coerce_bool rv) = Inr (is_active x)"
  unfolding field_phase_Inr_snd fields_CrewMember_def
  by (cases x) (auto simp: snd_and_field_Some_iff)

lemma fields_SpaceMission_Inr_iff:
  "field_phase (fields_SpaceMission cv rv) = Inr m \<longleftrightarrow>
     snd (check_field ''mission_id'' None (str_of [MinLength 5, MaxLength 15]) rv) = Inr (mission_id m) \<and>
     snd (check_field ''mission_name'' None (str_of [MinLength 3, MaxLength 100]) rv) = Inr (mission_name m) \<and>
     snd (check_field ''destination'' None (str_of [MinLength 3, MaxLength 50]) rv) = Inr (destination m) \<and>
     snd (check_field ''launch_date'' None (coerce_datetime cv) rv) = Inr (launch_date m) \<and>
     snd (check_field ''duration_days'' None (int_of cv [Ge 1, Le 3650]) rv) = Inr (duration_days m) \<and>
     snd (check_field ''crew'' None
            (list_of [MinLength 1, MaxLength 12] (record_of (validate_CrewMember cv))) rv) = Inr (crew m) \<and>
     snd (check_field ''mission_status'' (Some (RStr ''planned'')) (str_of []) rv) = Inr (mission_status m) \<and>
     snd (check_field ''budget_millions'' None (float_of cv [Ge 1, Le 10000]) rv) = Inr (budget_millions m)"
  unfolding field_phase_Inr_snd fields_SpaceMission_def
  by (cases m) (auto simp: snd_and_field_Some_iff)

subsection \<open>Checking a coerced value again\<close>

lemma raw_of_optional_simps [simp]:
  "raw_of_optional None = RNone" "raw_of_optional (Some s) = RStr s"
  by (simp_all add: raw_of_optional_def)

lemma ContactType_by_value_value [simp]: "ContactType_by_value (ContactType_value e) = Some e"
  by (cases e) (simp_all add: ContactType_by_value_def)

lemma Rank_by_value_value [simp]: "Rank_by_value (Rank_value e) = Some e"
  by (cases e) (simp_all add: Rank_by_value_def)

lemma recheck_field:
  assumes "snd (check_field fname dflt chk rv) = Inr v"
    and "\<And>w. chk w = Inr v \<Longrightarrow> chk w' = Inr v"
    and "map_of rv' fname = Some w'"
  shows "snd (check_field fname dflt chk rv') = Inr v"
  using assms by (auto simp: snd_check_field_Inr_iff raw_value_def)

lemma recheck_str:
  "snd (check_field fname dflt (str_of cs) rv) = Inr s \<Longrightarrow> map_of rv' fname = Some (RStr s) \<Longrightarrow>
   snd (check_field fname dflt (str_of cs) rv') = Inr s"
  by (erule recheck_field) (simp_all add: str_of_Inr_iff)

lemma recheck_int:
  "snd (check_field fname dflt (int_of cv cs) rv) = Inr i \<Longrightarrow> map_of rv' fname = Some (RInt i) \<Longrightarrow>
   snd (check_field fname dflt (int_of cv cs) rv') = Inr i"
  by (erule recheck_field) (simp_all add: int_of_Inr_iff)

lemma recheck_float:
  "snd (check_field fname dflt (float_of cv cs) rv) = Inr x \<Longrightarrow>
   map_of rv' fname = Some (RFloat x) \<Longrightarrow>
   snd (check_field fname dflt (float_of cv cs) rv') = Inr x"
  by (erule recheck_field) (simp_all add: float_of_Inr_iff)

lemma recheck_datetime:
  "snd (check_field fname dflt (coerce_datetime cv) rv) = Inr d \<Longrightarrow>
   map_of rv' fname = Some (RDatetime d) \<Longrightarrow>
   snd (check_field fname dflt (coerce_datetime cv) rv') = Inr d"
  by (erule recheck_field) simp_all

lemma recheck_bool:
  "snd (check_field fname dflt coerce_bool rv) = Inr b \<Longrightarrow> map_of rv' fname = Some (RBool b) \<Longrightarrow>
   snd (check_field fname dflt coerce_bool rv') = Inr b"
  by (erule recheck_field) (simp_all add: coerce_bool_Inr_iff)

lemma recheck_optional_str:
  "snd (check_field fname dflt (optional (str_of cs)) rv) = Inr x \<Longrightarrow>
   map_of rv' fname = Some (raw_of_optional x) \<Longrightarrow>
   snd (check_field fname dflt (optional (str_of cs)) rv') = Inr x"
  by (erule recheck_field) (auto simp: optional_Inr_iff str_of_Inr_iff)

lemma recheck_ContactType:
  "snd (check_field fname dflt (coerce_enum ContactType_by_value) rv) = Inr e \<Longrightarrow>
   map_of rv' fname = Some (RStr (ContactType_value e)) \<Longrightarrow>
   snd (check_field fname dflt (coerce_enum ContactType_by_value) rv') = Inr e"
  by (erule recheck_field) (simp_all add: coerce_enum_def)

lemma recheck_Rank:
  "snd (check_field fname dflt (coerce_enum Rank_by_value) rv) = Inr e \<Longrightarrow>
   map_of rv' fname = Some (RStr (Rank_value e)) \<Longrightarrow>
   snd (check_field fname dflt (coerce_enum Rank_by_value) rv') = Inr e"
  by (erule recheck_field) (simp_all add: coerce_enum_def)

lemmas recheck = recheck_str recheck_int recheck_float recheck_datetime recheck_bool
  recheck_optional_str recheck_ContactType recheck_Rank

lemma CrewMember_again:
  assumes "validate_CrewMember cv rv = Inr x"
  shows "validate_CrewMember cv (raw_of_CrewMember x) = Inr x"
proof -
  have "field_phase (fields_CrewMember cv rv) = Inr x \<Longrightarrow>
        field_phase (fields_CrewMember cv (raw_of_CrewMember x)) = Inr x"
    unfolding fields_CrewMember_Inr_iff
    by (elim conjE; intro conjI; erule recheck; simp add: raw_of_CrewMember_def)
  with assms show ?thesis
    by (simp add: validate_CrewMember_def)
qed

lemma SpaceStation_again:
  assumes "validate_SpaceStation cv rv = Inr s"
  shows "validate_SpaceStation cv (raw_of_SpaceStation s) = Inr s"
proof -
  have "field_phase (fields_SpaceStation cv rv) = Inr s \<Longrightarrow>
        field_phase (fields_SpaceStation cv (raw_of_SpaceStation s)) = Inr s"
    unfolding fields_SpaceStation_Inr_iff
    by (elim conjE; intro conjI; erule recheck; simp add: raw_of_SpaceStation_def)
  with assms show ?thesis
    by (simp add: validate_SpaceStation_def)
qed

lemma after_fields_Inr_iff:
  "after_fields fr rule = Inr r \<longleftrightarrow> (\<exists>r'. fr = Inr r' \<and> rule r' = Inr r)"
  by (auto simp: after_fields_def split: sum.splits)

lemma business_rules_Inr: "validate_business_rules c = Inr c' \<Longrightarrow> c' = c"
  by (auto simp: validate_business_rules_def split: if_splits)

lemma mission_rules_Inr: "validate_mission_rules m = Inr m' \<Longrightarrow> m' = m"
  by (auto simp: validate_mission_rules_def Let_def split: if_splits)

lemma AlienContact_again:
  assumes "validate_AlienContact cv rv = Inr c"
  shows "validate_AlienContact cv (raw_of_AlienContact c) = Inr c"
proof -
  from assms have ok: "field_phase (fields_AlienContact cv rv) = Inr c"
    and rules: "validate_business_rules c = Inr c"
    by (auto simp: validate_AlienContact_def after_fields_Inr_iff dest: business_rules_Inr)
  have "field_phase (fields_AlienContact cv rv) = Inr c \<Longrightarrow>
        field_phase (fields_AlienContact cv (raw_of_AlienContact c)) = Inr c"
    unfolding fields_AlienContact_Inr_iff
    by (elim conjE; intro conjI; erule recheck; simp add: raw_of_AlienContact_def)
  with ok rules show ?thesis
    by (simp add: validate_AlienContact_def after_fields_def)
qed

lemma members_again:
  assumes "list_all2 (\<lambda>x v. record_of (validate_CrewMember cv) x = Inr v) xs ms"
  shows "list_all2 (\<lambda>x v. record_of (validate_CrewMember cv) x = Inr v)
           (map (\<lambda>x. RDict (raw_of_CrewMember x)) ms) ms"
  using assms
  by (induction rule: list_all2_induct) (auto simp: record_of_Inr_iff CrewMember_again)

lemma crew_again:
  assumes "list_of cs (record_of (validate_CrewMember cv)) w = Inr ms"
  shows "list_of cs (record_of (validate_CrewMember cv))
           (RList (map (\<lambda>x. RDict (raw_of_CrewMember x)) ms)) = Inr ms"
  using assms by (auto simp: list_of_Inr_iff check_items_Inr_iff members_again)

lemma recheck_crew:
  "snd (check_field fname dflt (list_of cs (record_of (validate_CrewMember cv))) rv) = Inr ms \<Longrightarrow>
   map_of rv' fname = Some (RList (map (\<lambda>x. RDict (raw_of_CrewMember x)) ms)) \<Longrightarrow>
   snd (check_field fname dflt (list_of cs (record_of (validate_CrewMember cv))) rv') = Inr ms"
  by (erule recheck_field) (simp_all add: crew_again)

lemma SpaceMission_again:
  assumes "validate_SpaceMission cv rv = Inr m"
  shows "validate_SpaceMission cv (raw_of_SpaceMission m) = Inr m"
proof -
  from assms have ok: "field_phase (fields_SpaceMission cv rv) = Inr m"
    and rules: "validate_mission_rules m = Inr m"
    by (auto simp: validate_SpaceMission_def after_fields_Inr_iff dest: mission_rules_Inr)
  have "field_phase (fields_SpaceMission cv rv) = Inr m \<Longrightarrow>
        field_phase (fields_SpaceMission cv (raw_of_SpaceMission m)) = Inr m"
    unfolding fields_SpaceMission_Inr_iff
    by (elim conjE; intro conjI; erule recheck recheck_crew; simp add: raw_of_SpaceMission_def)
  with ok rules show ?thesis
    by (simp add: validate_SpaceMission_def after_fields_def)
qed

subsection \<open>A field-valid record that passes every rule\<close>

lemma AlienContact_rules_pass:
  "field_phase (fields_AlienContact cv rv) = Inr c \<Longrightarrow> failing AlienContact_rules c = [] \<Longrightarrow>
   validate_AlienContact cv rv = Inr c"
  unfolding validate_AlienContact_def
  by (rule after_fields_all_pass [OF business_rules_first_failure])

lemma SpaceMission_rules_pass:
  "field_phase (fields_SpaceMission cv rv) = Inr m \<Longrightarrow> failing SpaceMission_rules m = [] \<Longrightarrow>
   validate_SpaceMission cv rv = Inr m"
  unfolding validate_SpaceMission_def
  by (rule after_fields_all_pass [OF mission_rules_first_failure])

subsection \<open>The violations of every record type, field by field\<close>

lemma located_check_field:
  assumes "\<And>w. proper (chk w)"
  shows "located fname (errs_of (snd (check_field fname dflt chk rv)))"
proof (cases "raw_value fname dflt rv")
  case None
  then show ?thesis
    by (simp add: check_field_def located_def)
next
  case (Some w)
  from assms [of w] show ?thesis
    by (cases "chk w")
       (auto simp: check_field_def Some located_def at_loc_def proper_def violation_loc_prefix_loc)
qed

lemma report_AlienContact:
  "report (fields_AlienContact cv rv) =
     [(''contact_id'', errs_of (snd (check_field ''contact_id'' None (str_of [MinLength 5, MaxLength 15]) rv))),
      (''timestamp'', errs_of (snd (check_field ''timestamp'' None (coerce_datetime cv) rv))),
      (''location'', errs_of (snd (check_field ''location'' None (str_of [MinLength 3, MaxLength 100]) rv))),
      (''contact_type'', errs_of (snd (check_field ''contact_type'' None (coerce_enum ContactType_by_value) rv))),
      (''signal_strength'', errs_of (snd (check_field ''signal_strength'' None (float_of cv [Ge 0, Le 10]) rv))),
      (''duration_minutes'', errs_of (snd (check_field ''duration_minutes'' None (int_of cv [Ge 1, Le 1440]) rv))),
      (''witness_count'', errs_of (snd (check_field ''witness_count'' None (int_of cv [Ge 1, Le 100]) rv))),
      (''message_received'', errs_of (snd (check_field ''message_received'' (Some RNone)
                                             (optional (str_of [MaxLength 500])) rv))),
      (''is_verified'', errs_of (snd (check_field ''is_verified'' (Some (RBool False)) coerce_bool rv)))]"
  by (simp add: fields_AlienContact_def)

lemma singles_AlienContact:
  "\<forall>entry \<in> set (report (fields_AlienContact cv rv)). single [Key (fst entry)] (snd entry)"
  by (simp add: report_AlienContact single_check_field single_str_of_range single_int_of_range
      single_float_of_range single_optional)

lemma report_CrewMember:
  "report (fields_CrewMember cv rv) =
     [(''member_id'', errs_of (snd (check_field ''member_id'' None (str_of [MinLength 3, MaxLength 10]) rv))),
      (''name'', errs_of (snd (check_field ''name'' None (str_of [MinLength 2, MaxLength 50]) rv))),
      (''rank'', errs_of (snd (check_field ''rank'' None (coerce_enum Rank_by_value) rv))),
      (''age'', errs_of (snd (check_field ''age'' None (int_of cv [Ge 18, Le 80]) rv))),
      (''specialization'', errs_of (snd (check_field ''specialization'' None
                                           (str_of [MinLength 3, MaxLength 30]) rv))),
      (''years_experience'', errs_of (snd (check_field ''years_experience'' None
                                             (int_of cv [Ge 0, Le 50]) rv))),
      (''is_active'', errs_of (snd (check_field ''is_active'' (Some (RBool True)) coerce_bool rv)))]"
  by (simp add: fields_CrewMember_def)

lemma singles_CrewMember:
  "\<forall>entry \<in> set (report (fields_CrewMember cv rv)). single [Key (fst entry)] (snd entry)"
  by (simp add: report_CrewMember single_check_field single_str_of_range single_int_of_range)

lemma report_SpaceMission:
  "report (fields_SpaceMission cv rv) =
     [(''mission_id'', errs_of (snd (check_field ''mission_id'' None (str_of [MinLength 5, MaxLength 15]) rv))),
      (''mission_name'', errs_of (snd (check_field ''mission_name'' None
                                         (str_of [MinLength 3, MaxLength 100]) rv))),
      (''destination'', errs_of (snd (check_field ''destination'' None
                                        (str_of [MinLength 3, MaxLength 50]) rv))),
      (''launch_date'', errs_of (snd (check_field ''launch_date'' None (coerce_datetime cv) rv))),
      (''duration_days'', errs_of (snd (check_field ''duration_days'' None
                                          (int_of cv [Ge 1, Le 3650]) rv))),
      (''crew'', errs_of (snd (check_field ''crew'' None
                                 (list_of [MinLength 1, MaxLength 12]
                                    (record_of (validate_CrewMember cv))) rv))),
      (''mission_status'', errs_of (snd (check_field ''mission_status'' (Some (RStr ''planned''))
                                           (str_of []) rv))),
      (''budget_millions'', errs_of (snd (check_field ''budget_millions'' None
                                            (float_of cv [Ge 1, Le 10000]) rv)))]"
  by (simp add: fields_SpaceMission_def)

lemma located_SpaceMission:
  "\<forall>entry \<in> set (report (fields_SpaceMission cv rv)). located (fst entry) (snd entry)"
  by (simp add: report_SpaceMission located_check_field proper_list_of proper_record_of)

lemma flat_accumulate:
  assumes "consistent fs"
    and "\<forall>entry \<in> set (report fs). single [Key (fst entry)] (snd entry)"
    and "offending fs \<noteq> []"
  shows "field_phase fs = Inl (field_violations fs) \<and>
         map violation_loc (field_violations fs) = map (\<lambda>f. [Key f]) (offending fs) \<and>
         (\<forall>e \<in> set (field_violations fs). field_level e)"
proof (intro conjI)
  show "field_phase fs = Inl (field_violations fs)"
    using assms(1,3) by (rule field_phase_offending)
  show "map violation_loc (field_violations fs) = map (\<lambda>f. [Key f]) (offending fs)"
    unfolding field_violations_def offending_def using assms(2) by (rule locs_of_singles)
  show "\<forall>e \<in> set (field_violations fs). field_level e"
    using assms(1) by (simp add: consistent_def)
qed

subsection \<open>The field checks against the declarations\<close>

lemma check_str_in:
  "snd (check_field fname None (str_of [MinLength lo, MaxLength hi]) rv) = Inr s
     \<longleftrightarrow> str_in rv fname lo hi = Some s"
  by (auto simp: snd_check_field_Inr_iff raw_value_def str_of_Inr_iff str_in_def
      split: option.splits raw.splits)

lemma check_plain_str_in:
  "snd (check_field fname (Some (RStr dflt)) (str_of []) rv) = Inr s
     \<longleftrightarrow> plain_str_in rv fname dflt = Some s"
  by (auto simp: snd_check_field_Inr_iff raw_value_def str_of_Inr_iff plain_str_in_def
      split: option.splits raw.splits)

lemma check_optional_str_in:
  "snd (check_field fname (Some RNone) (optional (str_of [MaxLength hi])) rv) = Inr x
     \<longleftrightarrow> optional_str_in rv fname hi = Some x"
  by (auto simp: snd_check_field_Inr_iff raw_value_def optional_Inr_iff str_of_Inr_iff
      optional_str_in_def split: option.splits raw.splits)

lemma coerce_int_Inr_iff:
  "coerce_int cv w = Inr i \<longleftrightarrow>
     (case w of RInt j \<Rightarrow> Some j | RStr s \<Rightarrow> parse_int cv s | _ \<Rightarrow> None) = Some i"
  by (cases w) (auto simp: coerce_int_def split: option.splits)

lemma coerce_float_Inr_iff:
  "coerce_float cv w = Inr x \<longleftrightarrow>
     (case w of RFloat y \<Rightarrow> Some y | RInt j \<Rightarrow> Some (of_int j) | RStr s \<Rightarrow> parse_float cv s
              | _ \<Rightarrow> None) = Some x"
  by (cases w) (auto simp: coerce_float_def split: option.splits)

lemma coerce_datetime_Inr_iff:
  "coerce_datetime cv w = Inr d \<longleftrightarrow>
     (case w of RDatetime e \<Rightarrow> Some e | RStr s \<Rightarrow> parse_datetime cv s | _ \<Rightarrow> None) = Some d"
  by (cases w) (auto simp: coerce_datetime_def split: option.splits)

lemma coerce_enum_Inr_iff:
  "coerce_enum by_value w = Inr e \<longleftrightarrow> (case w of RStr s \<Rightarrow> by_value s | _ \<Rightarrow> None) = Some e"
  by (cases w) (auto simp: coerce_enum_def split: option.splits)

lemma check_int_in:
  assumes "a = of_int lo" and "b = of_int hi"
  shows "snd (check_field fname None (int_of cv [Ge a, Le b]) rv) = Inr i
     \<longleftrightarrow> int_in cv rv fname lo hi = Some i"
  unfolding assms
  by (auto simp: snd_check_field_Inr_iff raw_value_def int_of_Inr_iff coerce_int_Inr_iff
      int_in_def split: option.splits raw.splits)

lemma check_float_in:
  "snd (check_field fname None (float_of cv [Ge lo, Le hi]) rv) = Inr x
     \<longleftrightarrow> float_in cv rv fname lo hi = Some x"
  by (auto simp: snd_check_field_Inr_iff raw_value_def float_of_Inr_iff coerce_float_Inr_iff
      float_in_def split: option.splits raw.splits)

lemma check_datetime_in:
  "snd (check_field fname None (coerce_datetime cv) rv) = Inr d
     \<longleftrightarrow> datetime_in cv rv fname = Some d"
  by (auto simp: snd_check_field_Inr_iff raw_value_def coerce_datetime_Inr_iff datetime_in_def
      split: option.splits raw.splits)

lemma check_bool_in:
  "snd (check_field fname (Some (RBool dflt)) coerce_bool rv) = Inr b
     \<longleftrightarrow> bool_in rv fname dflt = Some b"
  by (auto simp: snd_check_field_Inr_iff raw_value_def coerce_bool_Inr_iff bool_in_def
      split: option.splits raw.splits)

lemma check_enum_in:
  "snd (check_field fname None (coerce_enum by_value) rv) = Inr e
     \<longleftrightarrow> enum_in rv fname by_value = Some e"
  by (auto simp: snd_check_field_Inr_iff raw_value_def coerce_enum_Inr_iff enum_in_def
      split: option.splits raw.splits)

lemmas check_in = check_str_in check_plain_str_in check_optional_str_in check_float_in
  check_datetime_in check_bool_in check_enum_in

lemma bind_Some_iff: "(x \<bind> f) = Some y \<longleftrightarrow> (\<exists>v. x = Some v \<and> f v = Some y)"
  by (cases x) simp_all

lemma CrewMember_in_iff:
  "record_of (validate_CrewMember cv) w = Inr x \<longleftrightarrow> CrewMember_in cv w = Some x"
proof (cases w)
  case (RDict kvs)
  show ?thesis
    unfolding RDict record_of_Inr_iff validate_CrewMember_def fields_CrewMember_Inr_iff
    by (cases x) (auto simp: CrewMember_in_def bind_Some_iff check_in check_int_in)
qed (simp_all add: record_of_def CrewMember_in_def)

lemma those_map_Some_iff:
  "those (map f ws) = Some xs \<longleftrightarrow> list_all2 (\<lambda>w x. f w = Some x) ws xs"
  by (induction ws arbitrary: xs) (auto simp: list_all2_Cons1 split: option.splits)

lemma list_in_Some_iff:
  "list_in rv fname lo hi element = Some xs \<longleftrightarrow>
     (\<exists>ws. map_of rv fname = Some (RList ws) \<and> those (map element ws) = Some xs \<and>
           lo \<le> length xs \<and> length xs \<le> hi)"
  by (auto simp: list_in_def split: option.splits raw.splits if_splits)

lemma raw_value_None: "raw_value fname None rv = map_of rv fname"
  by (simp add: raw_value_def split: option.splits)

lemma check_crew_in:
  "snd (check_field fname None
          (list_of [MinLength lo, MaxLength hi] (record_of (validate_CrewMember cv))) rv) = Inr ms
     \<longleftrightarrow> list_in rv fname lo hi (CrewMember_in cv) = Some ms"
  unfolding list_in_Some_iff those_map_Some_iff
  by (auto simp: snd_check_field_Inr_iff raw_value_None list_of_Inr_iff check_items_Inr_iff
      CrewMember_in_iff)

lemmas check_int_bounds =
  check_int_in [where lo = 1 and hi = 20] check_int_in [where lo = 1 and hi = 1440]
  check_int_in [where lo = 1 and hi = 100] check_int_in [where lo = 18 and hi = 80]
  check_int_in [where lo = 0 and hi = 50] check_int_in [where lo = 1 and hi = 3650]

lemma SpaceStation_in:
  "field_phase (fields_SpaceStation cv rv) = Inr s \<longleftrightarrow>
     str_in rv ''station_id'' 3 10 = Some (station_id s) \<and>
     str_in rv ''name'' 1 50 = Some (SpaceStation.name s) \<and>
     int_in cv rv ''crew_size'' 1 20 = Some (crew_size s) \<and>
     float_in cv rv ''power_level'' 0 100 = Some (power_level s) \<and>
     float_in cv rv ''oxygen_level'' 0 100 = Some (oxygen_level s) \<and>
     datetime_in cv rv ''last_maintenance'' = Some (last_maintenance s) \<and>
     bool_in rv ''is_operational'' True = Some (is_operational s) \<and>
     optional_str_in rv ''notes'' 200 = Some (notes s)"
  by (simp add: fields_SpaceStation_Inr_iff check_in check_int_bounds)

lemma AlienContact_in:
  "field_phase (fields_AlienContact cv rv) = Inr c \<longleftrightarrow>
     str_in rv ''contact_id'' 5 15 = Some (contact_id c) \<and>
     datetime_in cv rv ''timestamp'' = Some (timestamp c) \<and>
     str_in rv ''location'' 3 100 = Some (location c) \<and>
     enum_in rv ''contact_type'' ContactType_by_value = Some (contact_type c) \<and>
     float_in cv rv ''signal_strength'' 0 10 = Some (signal_strength c) \<and>
     int_in cv rv ''duration_minutes'' 1 1440 = Some (duration_minutes c) \<and>
     int_in cv rv ''witness_count'' 1 100 = Some (witness_count c) \<and>
     optional_str_in rv ''message_received'' 500 = Some (message_received c) \<and>
     bool_in rv ''is_verified'' False = Some (is_verified c)"
  by (simp add: fields_AlienContact_Inr_iff check_in check_int_bounds)

lemma CrewMember_fields_in:
  "field_phase (fields_CrewMember cv rv) = Inr x \<longleftrightarrow>
     str_in rv ''member_id'' 3 10 = Some (member_id x) \<and>
     str_in rv ''name'' 2 50 = Some (CrewMember.name x) \<and>
     enum_in rv ''rank'' Rank_by_value = Some (rank x) \<and>
     int_in cv rv ''age'' 18 80 = Some (age x) \<and>
     str_in rv ''specialization'' 3 30 = Some (specialization x) \<and>
     int_in cv rv ''years_experience'' 0 50 = Some (years_experience x) \<and>
     bool_in rv ''is_active'' True = Some (is_active x)"
  by (simp add: fields_CrewMember_Inr_iff check_in check_int_bounds)

lemma SpaceMission_in:
  "field_phase (fields_SpaceMission cv rv) = Inr m \<longleftrightarrow>
     str_in rv ''mission_id'' 5 15 = Some (mission_id m) \<and>
     str_in rv ''mission_name'' 3 100 = Some (mission_name m) \<and>
     str_in rv ''destination'' 3 50 = Some (destination m) \<and>
     datetime_in cv rv ''launch_date'' = Some (launch_date m) \<and>
     int_in cv rv ''duration_days'' 1 3650 = Some (duration_days m) \<and>
     list_in rv ''crew'' 1 12 (CrewMember_in cv) = Some (crew m) \<and>
     plain_str_in rv ''mission_status'' ''planned'' = Some (mission_status m) \<and>
     float_in cv rv ''budget_millions'' 1 10000 = Some (budget_millions m)"
  by (simp add: fields_SpaceMission_Inr_iff check_in check_int_bounds check_crew_in)

subsection \<open>A field is reported exactly when its declaration rejects the input\<close>

lemma rejects_iff:
  assumes "proper r" and "\<And>v. r = Inr v \<longleftrightarrow> x = Some v"
  shows "errs_of r \<noteq> [] \<longleftrightarrow> x = None"
proof (cases r)
  case (Inl es)
  with assms(1) have "es \<noteq> []"
    by (simp add: proper_def)
  moreover have "x = None"
  proof (cases x)
    case (Some v)
    with assms(2) [of v] Inl show ?thesis by simp
  qed simp
  ultimately show ?thesis
    using Inl by simp
next
  case (Inr v)
  with assms(2) [of v] show ?thesis by simp
qed

lemma rejects_str:
  "errs_of (snd (check_field fname None (str_of [MinLength lo, MaxLength hi]) rv)) \<noteq> []
     \<longleftrightarrow> str_in rv fname lo hi = None"
  by (rule rejects_iff [OF proper_check_field check_str_in]) simp

lemma rejects_plain_str:
  "errs_of (snd (check_field fname (Some (RStr dflt)) (str_of []) rv)) \<noteq> []
     \<longleftrightarrow> plain_str_in rv fname dflt = None"
  by (rule rejects_iff [OF proper_check_field check_plain_str_in]) simp

lemma rejects_optional_str:
  "errs_of (snd (check_field fname (Some RNone) (optional (str_of [MaxLength hi])) rv)) \<noteq> []
     \<longleftrightarrow> optional_str_in rv fname hi = None"
  by (rule rejects_iff [OF proper_check_field check_optional_str_in]) (simp add: proper_optional)

lemma rejects_int:
  assumes "a = of_int lo" and "b = of_int hi"
  shows "errs_of (snd (check_field fname None (int_of cv [Ge a, Le b]) rv)) \<noteq> []
     \<longleftrightarrow> int_in cv rv fname lo hi = None"
  by (rule rejects_iff [OF proper_check_field check_int_in [OF assms]]) simp

lemma rejects_float:
  "errs_of (snd (check_field fname None (float_of cv [Ge lo, Le hi]) rv)) \<noteq> []
     \<longleftrightarrow> float_in cv rv fname lo hi = None"
  by (rule rejects_iff [OF proper_check_field check_float_in]) simp

lemma rejects_datetime:
  "errs_of (snd (check_field fname None (coerce_datetime cv) rv)) \<noteq> []
     \<longleftrightarrow> datetime_in cv rv fname = None"
  by (rule rejects_iff [OF proper_check_field check_datetime_in]) simp

lemma rejects_bool:
  "errs_of (snd (check_field fname (Some (RBool dflt)) coerce_bool rv)) \<noteq> []
     \<longleftrightarrow> bool_in rv fname dflt = None"
  by (rule rejects_iff [OF proper_check_field check_bool_in]) simp

lemma rejects_enum:
  "errs_of (snd (check_field fname None (coerce_enum by_value) rv)) \<noteq> []
     \<longleftrightarrow> enum_in rv fname by_value = None"
  by (rule rejects_iff [OF proper_check_field check_enum_in]) simp

lemma rejects_crew:
  "errs_of (snd (check_field fname None
                  (list_of [MinLength lo, MaxLength hi] (record_of (validate_CrewMember cv))) rv)) \<noteq> []
     \<longleftrightarrow> list_in rv fname lo hi (CrewMember_in cv) = None"
  by (rule rejects_iff [OF proper_check_field check_crew_in])
     (simp add: proper_list_of proper_record_of)

lemmas rejects = rejects_str rejects_plain_str rejects_optional_str rejects_float
  rejects_datetime rejects_bool rejects_enum rejects_crew
  rejects_int [where lo = 1 and hi = 20] rejects_int [where lo = 1 and hi = 1440]
  rejects_int [where lo = 1 and hi = 100] rejects_int [where lo = 18 and hi = 80]
  rejects_int [where lo = 0 and hi = 50] rejects_int [where lo = 1 and hi = 3650]

lemma offending_rejected:
  "offending fs = rejected (map (\<lambda>entry. (fst entry, snd entry \<noteq> [])) (report fs))"
  by (simp add: offending_def rejected_def filter_map o_def)

lemma offending_SpaceStation:
  "offending (fields_SpaceStation cv rv) =
     rejected
       [(''station_id'', str_in rv ''station_id'' 3 10 = None),
        (''name'', str_in rv ''name'' 1 50 = None),
        (''crew_size'', int_in cv rv ''crew_size'' 1 20 = None),
        (''power_level'', float_in cv rv ''power_level'' 0 100 = None),
        (''oxygen_level'', float_in cv rv ''oxygen_level'' 0 100 = None),
        (''last_maintenance'', datetime_in cv rv ''last_maintenance'' = None),
        (''is_operational'', bool_in rv ''is_operational'' True = None),
        (''notes'', optional_str_in rv ''notes'' 200 = None)]"
  by (simp add: offending_rejected report_SpaceStation rejects)

lemma offending_AlienContact:
  "offending (fields_AlienContact cv rv) =
     rejected
       [(''contact_id'', str_in rv ''contact_id'' 5 15 = None),
        (''timestamp'', datetime_in cv rv ''timestamp'' = None),
        (''location'', str_in rv ''location'' 3 100 = None),
        (''contact_type'', enum_in rv ''contact_type'' ContactType_by_value = None),
        (''signal_strength'', float_in cv rv ''signal_strength'' 0 10 = None),
        (''duration_minutes'', int_in cv rv ''duration_minutes'' 1 1440 = None),
        (''witness_count'', int_in cv rv ''witness_count'' 1 100 = None),
        (''message_received'', optional_str_in rv ''message_received'' 500 = None),
        (''is_verified'', bool_in rv ''is_verified'' False = None)]"
  by (simp add: offending_rejected report_AlienContact rejects)

lemma offending_CrewMember:
  "offending (fields_CrewMember cv rv) =
     rejected
       [(''member_id'', str_in rv ''member_id'' 3 10 = None),
        (''name'', str_in rv ''name'' 2 50 = None),
        (''rank'', enum_in rv ''rank'' Rank_by_value = None),
        (''age'', int_in cv rv ''age'' 18 80 = None),
        (''specialization'', str_in rv ''specialization'' 3 30 = None),
        (''years_experience'', int_in cv rv ''years_experience'' 0 50 = None),
        (''is_active'', bool_in rv ''is_active'' True = None)]"
  by (simp add: offending_rejected report_CrewMember rejects)

lemma offending_SpaceMission:
  "offending (fields_SpaceMission cv rv) =
     rejected
       [(''mission_id'', str_in rv ''mission_id'' 5 15 = None),
        (''mission_name'', str_in rv ''mission_name'' 3 100 = None),
        (''destination'', str_in rv ''destination'' 3 50 = None),
        (''launch_date'', datetime_in cv rv ''launch_date'' = None),
        (''duration_days'', int_in cv rv ''duration_days'' 1 3650 = None),
        (''crew'', list_in rv ''crew'' 1 12 (CrewMember_in cv) = None),
        (''mission_status'', plain_str_in rv ''mission_status'' ''planned'' = None),
        (''budget_millions'', float_in cv rv ''budget_millions'' 1 10000 = None)]"
  by (simp add: offending_rejected report_SpaceMission rejects)

subsection \<open>The violations of the fields, in declaration order\<close>

lemma remdups_adj_replicate_append:
  "0 < n \<Longrightarrow> k \<notin> set ys \<Longrightarrow> remdups_adj (replicate n k @ ys) = k # remdups_adj ys"
proof (induction n)
  case 0
  then show ?case by simp
next
  case (Suc n)
  show ?case
  proof (cases n)
    case 0
    with Suc.prems(2) show ?thesis
      by (cases ys) auto
  next
    case (Suc n')
    with Suc.IH Suc.prems show ?thesis
      by simp
  qed
qed

lemma map_constant: "\<forall>e \<in> set es. K e = c \<Longrightarrow> map K es = replicate (length es) c"
  by (induction es) simp_all

lemma keys_of_blocks:
  assumes "distinct (map (\<lambda>entry. k (fst entry)) rep)"
    and "\<forall>entry \<in> set rep. \<forall>e \<in> set (snd entry). K e = k (fst entry)"
  shows "remdups_adj (map K (concat (map snd rep)))
           = map k (map fst (filter (\<lambda>entry. snd entry \<noteq> []) rep))"
  using assms
proof (induction rep)
  case Nil
  show ?case by simp
next
  case (Cons entry rep)
  have IH: "remdups_adj (map K (concat (map snd rep)))
              = map k (map fst (filter (\<lambda>entry. snd entry \<noteq> []) rep))"
    using Cons by simp
  show ?case
  proof (cases "snd entry = []")
    case True
    with IH show ?thesis by simp
  next
    case False
    have "\<forall>e \<in> set (snd entry). K e = k (fst entry)"
      using Cons.prems(2) by simp
    then have here: "map K (snd entry) = replicate (length (snd entry)) (k (fst entry))"
      by (rule map_constant)
    have fresh: "k (fst entry) \<notin> set (map K (concat (map snd rep)))"
    proof
      assume "k (fst entry) \<in> set (map K (concat (map snd rep)))"
      then obtain other e where o: "other \<in> set rep" and e: "e \<in> set (snd other)"
        and eq: "K e = k (fst entry)"
        by auto
      from o e Cons.prems(2) have "K e = k (fst other)"
        by simp
      with eq have "k (fst other) = k (fst entry)"
        by simp
      moreover from Cons.prems(1) have "k (fst entry) \<notin> (\<lambda>entry. k (fst entry)) ` set rep"
        by simp
      ultimately show False
        using o by (metis imageI)
    qed
    from False have "0 < length (snd entry)"
      by simp
    from remdups_adj_replicate_append [OF this fresh] False IH here show ?thesis
      by simp
  qed
qed

lemma nested_accumulate:
  assumes "consistent fs" and "distinct (map fst (report fs))"
    and "\<forall>entry \<in> set (report fs). located (fst entry) (snd entry)"
    and "offending fs \<noteq> []"
  shows "field_phase fs = Inl (field_violations fs) \<and>
         remdups_adj (map (\<lambda>e. take 1 (violation_loc e)) (field_violations fs))
           = map (\<lambda>f. [Key f]) (offending fs) \<and>
         (\<forall>e \<in> set (field_violations fs). field_level e)"
proof (intro conjI)
  show "field_phase fs = Inl (field_violations fs)"
    using assms(1,4) by (rule field_phase_offending)
  have keys: "distinct (map (\<lambda>entry. [Key (fst entry)]) (report fs))"
    using assms(2) by (simp add: distinct_map inj_on_def)
  have "\<forall>entry \<in> set (report fs). \<forall>e \<in> set (snd entry).
          take 1 (violation_loc e) = [Key (fst entry)]"
    using assms(3) unfolding located_def by blast
  with keys show "remdups_adj (map (\<lambda>e. take 1 (violation_loc e)) (field_violations fs))
           = map (\<lambda>f. [Key f]) (offending fs)"
    unfolding field_violations_def offending_def by (rule keys_of_blocks)
  show "\<forall>e \<in> set (field_violations fs). field_level e"
    using assms(1) by (simp add: consistent_def)
qed

lemma SpaceStation_accumulates:
  assumes "offending (fields_SpaceStation cv rv) = fs" and "fs \<noteq> []"
  shows "\<exists>es. validate_SpaceStation cv rv = Inl es \<and>
              map violation_loc es = map (\<lambda>f. [Key f]) fs \<and> (\<forall>e \<in> set es. field_level e)"
  using flat_accumulate [OF consistent_SpaceStation singles_SpaceStation, of cv rv] assms
  by (auto simp: validate_SpaceStation_def)

lemma AlienContact_accumulates:
  assumes "offending (fields_AlienContact cv rv) = fs" and "fs \<noteq> []"
  shows "\<exists>es. validate_AlienContact cv rv = Inl es \<and>
              map violation_loc es = map (\<lambda>f. [Key f]) fs \<and> (\<forall>e \<in> set es. field_level e)"
  using flat_accumulate [OF consistent_AlienContact singles_AlienContact, of cv rv] assms
  by (auto simp: validate_AlienContact_def)

lemma CrewMember_accumulates:
  assumes "offending (fields_CrewMember cv rv) = fs" and "fs \<noteq> []"
  shows "\<exists>es. validate_CrewMember cv rv = Inl es \<and>
              map violation_loc es = map (\<lambda>f. [Key f]) fs \<and> (\<forall>e \<in> set es. field_level e)"
  using flat_accumulate [OF consistent_CrewMember singles_CrewMember, of cv rv] assms
  by (auto simp: validate_CrewMember_def)

lemma SpaceMission_accumulates:
  assumes "offending (fields_SpaceMission cv rv) = fs" and "fs \<noteq> []"
  shows "\<exists>es. validate_SpaceMission cv rv = Inl es \<and>
              remdups_adj (map (\<lambda>e. take 1 (violation_loc e)) es) = map (\<lambda>f. [Key f]) fs \<and>
              (\<forall>e \<in> set es. field_level e)"
proof -
  have "distinct (map fst (report (fields_SpaceMission cv rv)))"
    by (simp add: report_SpaceMission)
  from nested_accumulate [OF consistent_SpaceMission this located_SpaceMission] assms
  show ?thesis
    by (auto simp: validate_SpaceMission_def)
qed

lemmas reading_defs = str_in_def plain_str_in_def optional_str_in_def int_in_def float_in_def
  datetime_in_def bool_in_def enum_in_def list_in_def CrewMember_in_def rejected_def

section \<open>The claims\<close>

text \<open>
  Claim C1.  When every field of the input is valid and two or more record-level rules
  fail, validation returns an error with exactly one RuleViolation, that of the first
  failing rule in declaration order (for an alien contact: identifier prefix, verified
  physical contact, witnesses of a telepathic contact, message of a strong signal; for a
  space mission: identifier prefix, a leader, experienced crew, all active); the message
  of no later failing rule is reported.
\<close>

theorem first_failing_rule_only:
  "(field_phase (fields_AlienContact cv rv) = Inr c \<and> 2 \<le> length (failing AlienContact_rules c) \<longrightarrow>
      validate_AlienContact cv rv
        = Inl [RuleViolation (snd (hd (failing AlienContact_rules c)))] \<and>
      (\<forall>later \<in> set (tl (failing AlienContact_rules c)).
         RuleViolation (snd later) \<notin> set (errs_of (validate_AlienContact cv rv)))) \<and>
   (field_phase (fields_SpaceMission cv rv') = Inr m \<and> 2 \<le> length (failing SpaceMission_rules m) \<longrightarrow>
      validate_SpaceMission cv rv'
        = Inl [RuleViolation (snd (hd (failing SpaceMission_rules m)))] \<and>
      (\<forall>later \<in> set (tl (failing SpaceMission_rules m)).
         RuleViolation (snd later) \<notin> set (errs_of (validate_SpaceMission cv rv'))))"
proof (intro conjI impI)
  assume a: "field_phase (fields_AlienContact cv rv) = Inr c \<and> 2 \<le> length (failing AlienContact_rules c)"
  then have ne: "failing AlienContact_rules c \<noteq> []"
    by auto
  show v: "validate_AlienContact cv rv = Inl [RuleViolation (snd (hd (failing AlienContact_rules c)))]"
    unfolding validate_AlienContact_def
    using a ne by (intro after_fields_first_failure business_rules_first_failure) simp_all
  show "\<forall>later \<in> set (tl (failing AlienContact_rules c)).
          RuleViolation (snd later) \<notin> set (errs_of (validate_AlienContact cv rv))"
    using later_failing_distinct [OF distinct_AlienContact_messages] by (simp add: v)
next
  assume a: "field_phase (fields_SpaceMission cv rv') = Inr m \<and> 2 \<le> length (failing SpaceMission_rules m)"
  then have ne: "failing SpaceMission_rules m \<noteq> []"
    by auto
  show v: "validate_SpaceMission cv rv' = Inl [RuleViolation (snd (hd (failing SpaceMission_rules m)))]"
    unfolding validate_SpaceMission_def
    using a ne by (intro after_fields_first_failure mission_rules_first_failure) simp_all
  show "\<forall>later \<in> set (tl (failing SpaceMission_rules m)).
          RuleViolation (snd later) \<notin> set (errs_of (validate_SpaceMission cv rv'))"
    using later_failing_distinct [OF distinct_SpaceMission_messages] by (simp add: v)
qed

text \<open>
  A telepathic contact with one witness whose identifier lacks the prefix fails two rules
  and is reported for the prefix alone; so is a mission of a single cadet whose
  identifier lacks its prefix.
\<close>

theorem first_failing_rule_only_witness:
  \<open>field_phase (fields_AlienContact script_conversions (contact_raw ''XX_2024_002'' ''telepathic'' 5 1 None))
     = Inr (contact_record ''XX_2024_002'' telepathic 5 1 None) \<and>
   map snd (failing AlienContact_rules (contact_record ''XX_2024_002'' telepathic 5 1 None))
     = [''Contact ID must start with "AC" (Alien Contact)'',
        ''Telepathic contact requires at least 3 witnesses''] \<and>
   validate_AlienContact script_conversions (contact_raw ''XX_2024_002'' ''telepathic'' 5 1 None)
     = Inl [RuleViolation ''Contact ID must start with "AC" (Alien Contact)''] \<and>
   field_phase (fields_SpaceMission script_conversions
                  (mission_raw ''X2026_TEST'' 30 [member_raw ''CD001'' ''cadet'' 1]))
     = Inr (mission_record ''X2026_TEST'' 30 [member_record ''CD001'' cadet 1]) \<and>
   map snd (failing SpaceMission_rules (mission_record ''X2026_TEST'' 30 [member_record ''CD001'' cadet 1]))
     = [''Mission ID must start with "M"'',
        ''Mission must have at least one Commander or Captain''] \<and>
   validate_SpaceMission script_conversions (mission_raw ''X2026_TEST'' 30 [member_raw ''CD001'' ''cadet'' 1])
     = Inl [RuleViolation ''Mission ID must start with "M"'']\<close>
proof -
  have f1: "field_phase (fields_AlienContact script_conversions (contact_raw ''XX_2024_002'' ''telepathic'' 5 1 None))
     = Inr (contact_record ''XX_2024_002'' telepathic 5 1 None)"
    by (simp add: fields_AlienContact_def contact_raw_def contact_record_def script_conversions_def
        ContactType_by_value_def engine_defs)
  have r1: \<open>map snd (failing AlienContact_rules (contact_record ''XX_2024_002'' telepathic 5 1 None))
     = [''Contact ID must start with "AC" (Alien Contact)'',
        ''Telepathic contact requires at least 3 witnesses'']\<close>
    by (simp add: failing_def AlienContact_rules_def contact_record_def)
  have f2: "field_phase (fields_SpaceMission script_conversions
                  (mission_raw ''X2026_TEST'' 30 [member_raw ''CD001'' ''cadet'' 1]))
     = Inr (mission_record ''X2026_TEST'' 30 [member_record ''CD001'' cadet 1])"
    by (simp add: fields_SpaceMission_def mission_raw_def mission_record_def member_raw_def
        member_record_def validate_CrewMember_def fields_CrewMember_def script_conversions_def
        Rank_by_value_def engine_defs)
  have r2: \<open>map snd (failing SpaceMission_rules (mission_record ''X2026_TEST'' 30 [member_record ''CD001'' cadet 1]))
     = [''Mission ID must start with "M"'',
        ''Mission must have at least one Commander or Captain'']\<close>
    by (simp add: failing_def SpaceMission_rules_def mission_record_def member_record_def experienced_def)
  have l1: "2 \<le> length (failing AlienContact_rules (contact_record ''XX_2024_002'' telepathic 5 1 None))"
    using arg_cong [OF r1, of length] by simp
  have l2: "2 \<le> length (failing SpaceMission_rules (mission_record ''X2026_TEST'' 30 [member_record ''CD001'' cadet 1]))"
    using arg_cong [OF r2, of length] by simp
  have h1: \<open>snd (hd (failing AlienContact_rules (contact_record ''XX_2024_002'' telepathic 5 1 None)))
     = ''Contact ID must start with "AC" (Alien Contact)''\<close>
    using r1 by (cases "failing AlienContact_rules (contact_record ''XX_2024_002'' telepathic 5 1 None)") simp_all
  have h2: \<open>snd (hd (failing SpaceMission_rules (mission_record ''X2026_TEST'' 30 [member_record ''CD001'' cadet 1])))
     = ''Mission ID must start with "M"''\<close>
    using r2 by (cases "failing SpaceMission_rules (mission_record ''X2026_TEST'' 30 [member_record ''CD001'' cadet 1])") simp_all
  show ?thesis
    using first_failing_rule_only [of script_conversions
        "contact_raw ''XX_2024_002'' ''telepathic'' 5 1 None"
        "contact_record ''XX_2024_002'' telepathic 5 1 None"
        "mission_raw ''X2026_TEST'' 30 [member_raw ''CD001'' ''cadet'' 1]"
        "mission_record ''X2026_TEST'' 30 [member_record ''CD001'' cadet 1]"]
      f1 r1 f2 r2 l1 l2 h1 h2
    by simp
qed

text \<open>
  Claim C2.  When at least one field-level check fails (a required field is missing, a
  coercion fails or a declared constraint is violated), validation returns the
  accumulated field-level violations and nothing else: the list is not empty, it holds
  no RuleViolation, and the outcome is the same whatever the validator that would run
  after the fields, so that no record-level rule is evaluated on such an input.
\<close>

theorem field_violations_gate_the_rules:
  "(offending (fields_AlienContact cv rv) \<noteq> [] \<longrightarrow>
      validate_AlienContact cv rv = Inl (field_violations (fields_AlienContact cv rv)) \<and>
      field_violations (fields_AlienContact cv rv) \<noteq> [] \<and>
      (\<forall>e \<in> set (field_violations (fields_AlienContact cv rv)). field_level e) \<and>
      (\<forall>rule. after_fields (field_phase (fields_AlienContact cv rv)) rule
                = Inl (field_violations (fields_AlienContact cv rv)))) \<and>
   (offending (fields_SpaceMission cv rv') \<noteq> [] \<longrightarrow>
      validate_SpaceMission cv rv' = Inl (field_violations (fields_SpaceMission cv rv')) \<and>
      field_violations (fields_SpaceMission cv rv') \<noteq> [] \<and>
      (\<forall>e \<in> set (field_violations (fields_SpaceMission cv rv')). field_level e) \<and>
      (\<forall>rule. after_fields (field_phase (fields_SpaceMission cv rv')) rule
                = Inl (field_violations (fields_SpaceMission cv rv'))))"
  unfolding validate_AlienContact_def validate_SpaceMission_def
  using gate [OF consistent_AlienContact, of cv rv] gate [OF consistent_SpaceMission, of cv rv']
  by blast

text \<open>
  A contact with no witness and a mission of no day with a crew member of an unknown
  rank are reported for their fields alone, although each also lacks its identifier
  prefix; a validator that rejects every record is never reached.
\<close>

theorem field_violations_gate_the_rules_witness:
  "offending (fields_AlienContact script_conversions (contact_raw ''XX_2024_002'' ''telepathic'' 5 0 None))
     = [''witness_count''] \<and>
   validate_AlienContact script_conversions (contact_raw ''XX_2024_002'' ''telepathic'' 5 0 None)
     = Inl [ConstraintViolation [Key ''witness_count''] (Ge 1)] \<and>
   after_fields (field_phase (fields_AlienContact script_conversions
                     (contact_raw ''XX_2024_002'' ''telepathic'' 5 0 None)))
                (\<lambda>c. Inl ''a rule was evaluated'')
     = Inl [ConstraintViolation [Key ''witness_count''] (Ge 1)] \<and>
   offending (fields_SpaceMission script_conversions
                (mission_raw ''X2026_TEST'' 0 [member_raw ''CD001'' ''ensign'' 1]))
     = [''duration_days'', ''crew''] \<and>
   validate_SpaceMission script_conversions (mission_raw ''X2026_TEST'' 0 [member_raw ''CD001'' ''ensign'' 1])
     = Inl [ConstraintViolation [Key ''duration_days''] (Ge 1),
            TypeMismatch [Key ''crew'', Idx 0, Key ''rank''] ''enum''] \<and>
   after_fields (field_phase (fields_SpaceMission script_conversions
                     (mission_raw ''X2026_TEST'' 0 [member_raw ''CD001'' ''ensign'' 1])))
                (\<lambda>m. Inl ''a rule was evaluated'')
     = Inl [ConstraintViolation [Key ''duration_days''] (Ge 1),
            TypeMismatch [Key ''crew'', Idx 0, Key ''rank''] ''enum'']"
proof -
  have o1: "offending (fields_AlienContact script_conversions (contact_raw ''XX_2024_002'' ''telepathic'' 5 0 None))
     = [''witness_count'']"
    by (simp add: fields_AlienContact_def contact_raw_def script_conversions_def
        ContactType_by_value_def engine_defs)
  have v1: "field_violations (fields_AlienContact script_conversions (contact_raw ''XX_2024_002'' ''telepathic'' 5 0 None))
     = [ConstraintViolation [Key ''witness_count''] (Ge 1)]"
    by (simp add: fields_AlienContact_def contact_raw_def script_conversions_def
        ContactType_by_value_def engine_defs)
  have o2: "offending (fields_SpaceMission script_conversions
                (mission_raw ''X2026_TEST'' 0 [member_raw ''CD001'' ''ensign'' 1]))
     = [''duration_days'', ''crew'']"
    by (simp add: fields_SpaceMission_def mission_raw_def member_raw_def
        validate_CrewMember_def fields_CrewMember_def script_conversions_def
        Rank_by_value_def engine_defs)
  have v2: "field_violations (fields_SpaceMission script_conversions
                (mission_raw ''X2026_TEST'' 0 [member_raw ''CD001'' ''ensign'' 1]))
     = [ConstraintViolation [Key ''duration_days''] (Ge 1),
            TypeMismatch [Key ''crew'', Idx 0, Key ''rank''] ''enum'']"
    by (simp add: fields_SpaceMission_def mission_raw_def member_raw_def
        validate_CrewMember_def fields_CrewMember_def script_conversions_def
        Rank_by_value_def engine_defs)
  show ?thesis
    using field_violations_gate_the_rules [of script_conversions
        "contact_raw ''XX_2024_002'' ''telepathic'' 5 0 None"
        "mission_raw ''X2026_TEST'' 0 [member_raw ''CD001'' ''ensign'' 1]"]
      o1 v1 o2 v2
    by simp
qed

text \<open>
  Claim C3, as amended.  For every field-valid mission of more than 365 days whose
  identifier starts with \<open>M\<close> and whose crew has a captain or a commander, validation
  fails with the RuleViolation "Not enough experienced crew" exactly when the number of
  crew members with at least 5 years of experience is strictly less than half the size
  of the crew, the half taken by true division.
\<close>

theorem experienced_crew_rule:
  \<open>field_phase (fields_SpaceMission cv rv) = Inr m \<Longrightarrow> 365 < duration_days m \<Longrightarrow>
   prefix ''M'' (mission_id m) \<Longrightarrow>
   (\<exists>x \<in> set (crew m). rank x = captain \<or> rank x = commander) \<Longrightarrow>
   (validate_SpaceMission cv rv = Inl [RuleViolation ''Not enough experienced crew'']
      \<longleftrightarrow> (of_nat (experienced (crew m)) :: rat) < of_nat (length (crew m)) / 2)\<close>
  by (simp add: validate_SpaceMission_fields_ok validate_mission_rules_def fold_has_leader
      fold_exprienced fold_all_active experienced_def Let_def)

text \<open>
  A mission of 900 days with one experienced member out of three fails: 1 is less than
  3 / 2, though not less than the integer quotient.
\<close>

theorem experienced_crew_rule_witness:
  \<open>field_phase (fields_SpaceMission script_conversions
       (mission_raw ''M2024_MARS'' 900
          [member_raw ''CM001'' ''commander'' 12, member_raw ''LT002'' ''lieutenant'' 2,
           member_raw ''OF003'' ''officer'' 1]))
     = Inr (mission_record ''M2024_MARS'' 900
          [member_record ''CM001'' commander 12, member_record ''LT002'' lieutenant 2,
           member_record ''OF003'' officer 1]) \<and>
   experienced [member_record ''CM001'' commander 12, member_record ''LT002'' lieutenant 2,
           member_record ''OF003'' officer 1] = 1 \<and>
   (1 :: rat) < 3 / 2 \<and> \<not> (1 :: nat) < 3 div 2 \<and>
   validate_SpaceMission script_conversions
       (mission_raw ''M2024_MARS'' 900
          [member_raw ''CM001'' ''commander'' 12, member_raw ''LT002'' ''lieutenant'' 2,
           member_raw ''OF003'' ''officer'' 1])
     = Inl [RuleViolation ''Not enough experienced crew'']\<close>
proof -
  let ?rv = "mission_raw ''M2024_MARS'' 900
          [member_raw ''CM001'' ''commander'' 12, member_raw ''LT002'' ''lieutenant'' 2,
           member_raw ''OF003'' ''officer'' 1]"
  let ?m = "mission_record ''M2024_MARS'' 900
          [member_record ''CM001'' commander 12, member_record ''LT002'' lieutenant 2,
           member_record ''OF003'' officer 1]"
  have f: "field_phase (fields_SpaceMission script_conversions ?rv) = Inr ?m"
    by (simp add: mission_eval)
  have d: "365 < duration_days ?m"
    by (simp add: mission_record_def)
  have p: "prefix ''M'' (mission_id ?m)"
    by (simp add: mission_record_def)
  have l: "\<exists>x \<in> set (crew ?m). rank x = captain \<or> rank x = commander"
    by (simp add: mission_record_def member_record_def)
  have e: "experienced [member_record ''CM001'' commander 12, member_record ''LT002'' lieutenant 2,
           member_record ''OF003'' officer 1] = 1"
    by (simp add: experienced_def member_record_def)
  have c: "crew ?m = [member_record ''CM001'' commander 12, member_record ''LT002'' lieutenant 2,
           member_record ''OF003'' officer 1]"
    by (simp add: mission_record_def)
  show ?thesis
    using experienced_crew_rule [OF f d p l] f e c by simp
qed

text \<open>
  The claim as stated, for every field-valid mission of more than 365 days, fails on a
  mission whose identifier lacks the prefix: one member of three is experienced, and
  the violation reported is that of the identifier.
\<close>

theorem experienced_crew_rule_counterexample:
  \<open>field_phase (fields_SpaceMission script_conversions
       (mission_raw ''X2024_MARS'' 900
          [member_raw ''CM001'' ''commander'' 12, member_raw ''LT002'' ''lieutenant'' 2,
           member_raw ''OF003'' ''officer'' 1]))
     = Inr (mission_record ''X2024_MARS'' 900
          [member_record ''CM001'' commander 12, member_record ''LT002'' lieutenant 2,
           member_record ''OF003'' officer 1]) \<and>
   365 < duration_days (mission_record ''X2024_MARS'' 900
          [member_record ''CM001'' commander 12, member_record ''LT002'' lieutenant 2,
           member_record ''OF003'' officer 1]) \<and>
   (of_nat (experienced (crew (mission_record ''X2024_MARS'' 900
          [member_record ''CM001'' commander 12, member_record ''LT002'' lieutenant 2,
           member_record ''OF003'' officer 1]))) :: rat)
     < of_nat (length (crew (mission_record ''X2024_MARS'' 900
          [member_record ''CM001'' commander 12, member_record ''LT002'' lieutenant 2,
           member_record ''OF003'' officer 1]))) / 2 \<and>
   validate_SpaceMission script_conversions
       (mission_raw ''X2024_MARS'' 900
          [member_raw ''CM001'' ''commander'' 12, member_raw ''LT002'' ''lieutenant'' 2,
           member_raw ''OF003'' ''officer'' 1])
     = Inl [RuleViolation ''Mission ID must start with "M"''] \<and>
   validate_SpaceMission script_conversions
       (mission_raw ''X2024_MARS'' 900
          [member_raw ''CM001'' ''commander'' 12, member_raw ''LT002'' ''lieutenant'' 2,
           member_raw ''OF003'' ''officer'' 1])
     \<noteq> Inl [RuleViolation ''Not enough experienced crew'']\<close>
proof -
  let ?rv = "mission_raw ''X2024_MARS'' 900
          [member_raw ''CM001'' ''commander'' 12, member_raw ''LT002'' ''lieutenant'' 2,
           member_raw ''OF003'' ''officer'' 1]"
  let ?m = "mission_record ''X2024_MARS'' 900
          [member_record ''CM001'' commander 12, member_record ''LT002'' lieutenant 2,
           member_record ''OF003'' officer 1]"
  have f: "field_phase (fields_SpaceMission script_conversions ?rv) = Inr ?m"
    by (simp add: mission_eval)
  have r: \<open>validate_mission_rules ?m = Inl ''Mission ID must start with "M"''\<close>
    by (simp add: validate_mission_rules_def mission_record_def)
  have v: \<open>validate_SpaceMission script_conversions ?rv
             = Inl [RuleViolation ''Mission ID must start with "M"'']\<close>
    by (simp add: validate_SpaceMission_fields_ok [OF f] r)
  have e: "(of_nat (experienced (crew ?m)) :: rat) < of_nat (length (crew ?m)) / 2"
    by (simp add: experienced_def mission_record_def member_record_def)
  have d: "365 < duration_days ?m"
    by (simp add: mission_record_def)
  show ?thesis
    using f d e v by simp
qed



text \<open>
  Claim C5, as amended.  For every field-valid contact with a signal strength above 7.0
  that passes the three earlier rules (identifier prefix, verified physical contact,
  witnesses of a telepathic contact), validation fails with the strong-signal
  RuleViolation exactly when the message is absent or the empty string, and returns the
  record exactly when the message is a non-empty string.
\<close>

theorem strong_signal_rule:
  \<open>field_phase (fields_AlienContact cv rv) = Inr c \<Longrightarrow> 7 < signal_strength c \<Longrightarrow>
   prefix ''AC'' (contact_id c) \<Longrightarrow>
   (contact_type c = physical \<longrightarrow> is_verified c) \<Longrightarrow>
   (contact_type c = telepathic \<longrightarrow> 3 \<le> witness_count c) \<Longrightarrow>
   (validate_AlienContact cv rv
      = Inl [RuleViolation ''Strong signals (> 7.0) should include received messages'']
      \<longleftrightarrow> message_received c = None \<or> message_received c = Some []) \<and>
   (validate_AlienContact cv rv = Inr c
      \<longleftrightarrow> \<not> (message_received c = None \<or> message_received c = Some []))\<close>
  by (cases "message_received c")
     (auto simp: validate_AlienContact_fields_ok validate_business_rules_def)

text \<open>
  A signal of strength 8.5 with its message is accepted; the same report without the
  message is rejected by the strong-signal rule.
\<close>

theorem strong_signal_rule_witness:
  \<open>field_phase (fields_AlienContact script_conversions
       (contact_raw ''AC_2024_001'' ''radio'' (17 / 2) 5 (Some (RStr ''Greetings from Zeta Reticuli''))))
     = Inr (contact_record ''AC_2024_001'' radio (17 / 2) 5 (Some ''Greetings from Zeta Reticuli'')) \<and>
   validate_AlienContact script_conversions
       (contact_raw ''AC_2024_001'' ''radio'' (17 / 2) 5 (Some (RStr ''Greetings from Zeta Reticuli'')))
     = Inr (contact_record ''AC_2024_001'' radio (17 / 2) 5 (Some ''Greetings from Zeta Reticuli'')) \<and>
   field_phase (fields_AlienContact script_conversions
       (contact_raw ''AC_2024_001'' ''radio'' (17 / 2) 5 None))
     = Inr (contact_record ''AC_2024_001'' radio (17 / 2) 5 None) \<and>
   validate_AlienContact script_conversions (contact_raw ''AC_2024_001'' ''radio'' (17 / 2) 5 None)
     = Inl [RuleViolation ''Strong signals (> 7.0) should include received messages'']\<close>
proof -
  let ?rv = "contact_raw ''AC_2024_001'' ''radio'' (17 / 2) 5 (Some (RStr ''Greetings from Zeta Reticuli''))"
  let ?c = "contact_record ''AC_2024_001'' radio (17 / 2) 5 (Some ''Greetings from Zeta Reticuli'')"
  let ?rv' = "contact_raw ''AC_2024_001'' ''radio'' (17 / 2) 5 None"
  let ?c' = "contact_record ''AC_2024_001'' radio (17 / 2) 5 None"
  have f: "field_phase (fields_AlienContact script_conversions ?rv) = Inr ?c"
    by (simp add: contact_eval)
  have f': "field_phase (fields_AlienContact script_conversions ?rv') = Inr ?c'"
    by (simp add: contact_eval)
  have s: "7 < signal_strength ?c" and p: "prefix ''AC'' (contact_id ?c)"
    and ph: "contact_type ?c = physical \<longrightarrow> is_verified ?c"
    and t: "contact_type ?c = telepathic \<longrightarrow> 3 \<le> witness_count ?c"
    and m: "\<not> (message_received ?c = None \<or> message_received ?c = Some [])"
    by (simp_all add: contact_record_def)
  have s': "7 < signal_strength ?c'" and p': "prefix ''AC'' (contact_id ?c')"
    and ph': "contact_type ?c' = physical \<longrightarrow> is_verified ?c'"
    and t': "contact_type ?c' = telepathic \<longrightarrow> 3 \<le> witness_count ?c'"
    and m': "message_received ?c' = None"
    by (simp_all add: contact_record_def)
  show ?thesis
    using strong_signal_rule [OF f s p ph t] strong_signal_rule [OF f' s' p' ph' t'] f f' m m'
    by simp
qed

text \<open>
  The claim as stated, failure exactly when the message is not present, fails in both
  directions: a report whose message is present but empty is rejected by the
  strong-signal rule, and a report without message whose identifier lacks the prefix is
  rejected for the identifier.
\<close>

theorem strong_signal_rule_counterexample:
  \<open>field_phase (fields_AlienContact script_conversions
       (contact_raw ''AC_2024_003'' ''radio'' (17 / 2) 5 (Some (RStr ''''))))
     = Inr (contact_record ''AC_2024_003'' radio (17 / 2) 5 (Some '''')) \<and>
   map_of (contact_raw ''AC_2024_003'' ''radio'' (17 / 2) 5 (Some (RStr ''''))) ''message_received''
     = Some (RStr '''') \<and>
   validate_AlienContact script_conversions
       (contact_raw ''AC_2024_003'' ''radio'' (17 / 2) 5 (Some (RStr '''')))
     = Inl [RuleViolation ''Strong signals (> 7.0) should include received messages''] \<and>
   field_phase (fields_AlienContact script_conversions
       (contact_raw ''QQ_2024_003'' ''radio'' (17 / 2) 5 None))
     = Inr (contact_record ''QQ_2024_003'' radio (17 / 2) 5 None) \<and>
   map_of (contact_raw ''QQ_2024_003'' ''radio'' (17 / 2) 5 None) ''message_received'' = None \<and>
   validate_AlienContact script_conversions (contact_raw ''QQ_2024_003'' ''radio'' (17 / 2) 5 None)
     = Inl [RuleViolation ''Contact ID must start with "AC" (Alien Contact)'']\<close>
proof -
  let ?rv = "contact_raw ''AC_2024_003'' ''radio'' (17 / 2) 5 (Some (RStr ''''))"
  let ?c = "contact_record ''AC_2024_003'' radio (17 / 2) 5 (Some '''')"
  let ?rv' = "contact_raw ''QQ_2024_003'' ''radio'' (17 / 2) 5 None"
  let ?c' = "contact_record ''QQ_2024_003'' radio (17 / 2) 5 None"
  have f: "field_phase (fields_AlienContact script_conversions ?rv) = Inr ?c"
    by (simp add: contact_eval)
  have f': "field_phase (fields_AlienContact script_conversions ?rv') = Inr ?c'"
    by (simp add: contact_eval)
  have r: \<open>validate_business_rules ?c
             = Inl ''Strong signals (> 7.0) should include received messages''\<close>
    by (simp add: validate_business_rules_def contact_record_def)
  have r': \<open>validate_business_rules ?c' = Inl ''Contact ID must start with "AC" (Alien Contact)''\<close>
    by (simp add: validate_business_rules_def contact_record_def)
  have k: "map_of ?rv ''message_received'' = Some (RStr '''')"
    by (simp add: contact_raw_def)
  have k': "map_of ?rv' ''message_received'' = None"
    by (simp add: contact_raw_def)
  show ?thesis
    using f f' k k'
    by (simp add: validate_AlienContact_fields_ok [OF f] validate_AlienContact_fields_ok [OF f'] r r')
qed

text \<open>
  Claim C6.  For every valid input validation returns the record, and every field of
  the record is the coerced input value.  When each field of the raw input is accepted
  by its declaration (it is present or defaulted, it is coerced and it satisfies the
  declared constraints) with the value that the record has for it, and the record
  satisfies every record-level rule, validation returns that record.  A station and a
  crew member have no record-level rule.
\<close>

theorem valid_input_is_accepted:
  "(str_in rv1 ''station_id'' 3 10 = Some (station_id s) \<and>
    str_in rv1 ''name'' 1 50 = Some (SpaceStation.name s) \<and>
    int_in cv rv1 ''crew_size'' 1 20 = Some (crew_size s) \<and>
    float_in cv rv1 ''power_level'' 0 100 = Some (power_level s) \<and>
    float_in cv rv1 ''oxygen_level'' 0 100 = Some (oxygen_level s) \<and>
    datetime_in cv rv1 ''last_maintenance'' = Some (last_maintenance s) \<and>
    bool_in rv1 ''is_operational'' True = Some (is_operational s) \<and>
    optional_str_in rv1 ''notes'' 200 = Some (notes s) \<longrightarrow>
    validate_SpaceStation cv rv1 = Inr s) \<and>
   (str_in rv2 ''contact_id'' 5 15 = Some (contact_id c) \<and>
    datetime_in cv rv2 ''timestamp'' = Some (timestamp c) \<and>
    str_in rv2 ''location'' 3 100 = Some (location c) \<and>
    enum_in rv2 ''contact_type'' ContactType_by_value = Some (contact_type c) \<and>
    float_in cv rv2 ''signal_strength'' 0 10 = Some (signal_strength c) \<and>
    int_in cv rv2 ''duration_minutes'' 1 1440 = Some (duration_minutes c) \<and>
    int_in cv rv2 ''witness_count'' 1 100 = Some (witness_count c) \<and>
    optional_str_in rv2 ''message_received'' 500 = Some (message_received c) \<and>
    bool_in rv2 ''is_verified'' False = Some (is_verified c) \<and>
    failing AlienContact_rules c = [] \<longrightarrow>
    validate_AlienContact cv rv2 = Inr c) \<and>
   (str_in rv3 ''member_id'' 3 10 = Some (member_id x) \<and>
    str_in rv3 ''name'' 2 50 = Some (CrewMember.name x) \<and>
    enum_in rv3 ''rank'' Rank_by_value = Some (rank x) \<and>
    int_in cv rv3 ''age'' 18 80 = Some (age x) \<and>
    str_in rv3 ''specialization'' 3 30 = Some (specialization x) \<and>
    int_in cv rv3 ''years_experience'' 0 50 = Some (years_experience x) \<and>
    bool_in rv3 ''is_active'' True = Some (is_active x) \<longrightarrow>
    validate_CrewMember cv rv3 = Inr x) \<and>
   (str_in rv4 ''mission_id'' 5 15 = Some (mission_id m) \<and>
    str_in rv4 ''mission_name'' 3 100 = Some (mission_name m) \<and>
    str_in rv4 ''destination'' 3 50 = Some (destination m) \<and>
    datetime_in cv rv4 ''launch_date'' = Some (launch_date m) \<and>
    int_in cv rv4 ''duration_days'' 1 3650 = Some (duration_days m) \<and>
    list_in rv4 ''crew'' 1 12 (CrewMember_in cv) = Some (crew m) \<and>
    plain_str_in rv4 ''mission_status'' ''planned'' = Some (mission_status m) \<and>
    float_in cv rv4 ''budget_millions'' 1 10000 = Some (budget_millions m) \<and>
    failing SpaceMission_rules m = [] \<longrightarrow>
    validate_SpaceMission cv rv4 = Inr m)"
proof (intro conjI impI)
  assume "str_in rv1 ''station_id'' 3 10 = Some (station_id s) \<and>
    str_in rv1 ''name'' 1 50 = Some (SpaceStation.name s) \<and>
    int_in cv rv1 ''crew_size'' 1 20 = Some (crew_size s) \<and>
    float_in cv rv1 ''power_level'' 0 100 = Some (power_level s) \<and>
    float_in cv rv1 ''oxygen_level'' 0 100 = Some (oxygen_level s) \<and>
    datetime_in cv rv1 ''last_maintenance'' = Some (last_maintenance s) \<and>
    bool_in rv1 ''is_operational'' True = Some (is_operational s) \<and>
    optional_str_in rv1 ''notes'' 200 = Some (notes s)"
  then show "validate_SpaceStation cv rv1 = Inr s"
    by (simp add: validate_SpaceStation_def SpaceStation_in)
next
  assume a: "str_in rv2 ''contact_id'' 5 15 = Some (contact_id c) \<and>
    datetime_in cv rv2 ''timestamp'' = Some (timestamp c) \<and>
    str_in rv2 ''location'' 3 100 = Some (location c) \<and>
    enum_in rv2 ''contact_type'' ContactType_by_value = Some (contact_type c) \<and>
    float_in cv rv2 ''signal_strength'' 0 10 = Some (signal_strength c) \<and>
    int_in cv rv2 ''duration_minutes'' 1 1440 = Some (duration_minutes c) \<and>
    int_in cv rv2 ''witness_count'' 1 100 = Some (witness_count c) \<and>
    optional_str_in rv2 ''message_received'' 500 = Some (message_received c) \<and>
    bool_in rv2 ''is_verified'' False = Some (is_verified c) \<and>
    failing AlienContact_rules c = []"
  then have "field_phase (fields_AlienContact cv rv2) = Inr c"
    by (simp add: AlienContact_in)
  moreover from a have "failing AlienContact_rules c = []"
    by simp
  ultimately show "validate_AlienContact cv rv2 = Inr c"
    by (rule AlienContact_rules_pass)
next
  assume "str_in rv3 ''member_id'' 3 10 = Some (member_id x) \<and>
    str_in rv3 ''name'' 2 50 = Some (CrewMember.name x) \<and>
    enum_in rv3 ''rank'' Rank_by_value = Some (rank x) \<and>
    int_in cv rv3 ''age'' 18 80 = Some (age x) \<and>
    str_in rv3 ''specialization'' 3 30 = Some (specialization x) \<and>
    int_in cv rv3 ''years_experience'' 0 50 = Some (years_experience x) \<and>
    bool_in rv3 ''is_active'' True = Some (is_active x)"
  then show "validate_CrewMember cv rv3 = Inr x"
    by (simp add: validate_CrewMember_def CrewMember_fields_in)
next
  assume a: "str_in rv4 ''mission_id'' 5 15 = Some (mission_id m) \<and>
    str_in rv4 ''mission_name'' 3 100 = Some (mission_name m) \<and>
    str_in rv4 ''destination'' 3 50 = Some (destination m) \<and>
    datetime_in cv rv4 ''launch_date'' = Some (launch_date m) \<and>
    int_in cv rv4 ''duration_days'' 1 3650 = Some (duration_days m) \<and>
    list_in rv4 ''crew'' 1 12 (CrewMember_in cv) = Some (crew m) \<and>
    plain_str_in rv4 ''mission_status'' ''planned'' = Some (mission_status m) \<and>
    float_in cv rv4 ''budget_millions'' 1 10000 = Some (budget_millions m) \<and>
    failing SpaceMission_rules m = []"
  then have "field_phase (fields_SpaceMission cv rv4) = Inr m"
    by (simp add: SpaceMission_in)
  moreover from a have "failing SpaceMission_rules m = []"
    by simp
  ultimately show "validate_SpaceMission cv rv4 = Inr m"
    by (rule SpaceMission_rules_pass)
qed

text \<open>
  The station of \<open>ex0\<close> (crew of 6, power level 85.5, oxygen level 92.3) is accepted
  with these values; so are a contact report, a crew member and a mission shaped like
  the valid ones of \<open>ex1\<close> and \<open>ex2\<close>.
\<close>

theorem valid_input_is_accepted_witness:
  "str_in station_iss ''station_id'' 3 10 = Some ''ISS001'' \<and>
   str_in station_iss ''name'' 1 50 = Some ''International Space Station'' \<and>
   int_in script_conversions station_iss ''crew_size'' 1 20 = Some 6 \<and>
   float_in script_conversions station_iss ''power_level'' 0 100 = Some (171 / 2) \<and>
   float_in script_conversions station_iss ''oxygen_level'' 0 100 = Some (923 / 10) \<and>
   datetime_in script_conversions station_iss ''last_maintenance''
     = Some (Datetime 2026 2 1 10 30 0) \<and>
   bool_in station_iss ''is_operational'' True = Some True \<and>
   optional_str_in station_iss ''notes'' 200 = Some (Some ''All systems nominal.'') \<and>
   validate_SpaceStation script_conversions station_iss
     = Inr \<lparr>station_id = ''ISS001'', SpaceStation.name = ''International Space Station'',
            crew_size = 6, power_level = 171 / 2, oxygen_level = 923 / 10,
            last_maintenance = Datetime 2026 2 1 10 30 0, is_operational = True,
            notes = Some ''All systems nominal.''\<rparr> \<and>
   failing AlienContact_rules
      (contact_record ''AC_2024_001'' radio (17 / 2) 5 (Some ''Greetings from Zeta Reticuli'')) = [] \<and>
   validate_AlienContact script_conversions
      (contact_raw ''AC_2024_001'' ''radio'' (17 / 2) 5 (Some (RStr ''Greetings from Zeta Reticuli'')))
     = Inr (contact_record ''AC_2024_001'' radio (17 / 2) 5 (Some ''Greetings from Zeta Reticuli'')) \<and>
   validate_CrewMember script_conversions
      [(''member_id'', RStr ''CM001''), (''name'', RStr ''Test Member''),
       (''rank'', RStr ''commander''), (''age'', RInt 30),
       (''specialization'', RStr ''Support''), (''years_experience'', RInt 12)]
     = Inr (member_record ''CM001'' commander 12) \<and>
   list_in (mission_raw ''M2024_MARS'' 900
         [member_raw ''CM001'' ''commander'' 12, member_raw ''LT002'' ''lieutenant'' 6,
          member_raw ''OF003'' ''officer'' 5]) ''crew'' 1 12 (CrewMember_in script_conversions)
     = Some [member_record ''CM001'' commander 12, member_record ''LT002'' lieutenant 6,
          member_record ''OF003'' officer 5] \<and>
   failing SpaceMission_rules
      (mission_record ''M2024_MARS'' 900
         [member_record ''CM001'' commander 12, member_record ''LT002'' lieutenant 6,
          member_record ''OF003'' officer 5]) = [] \<and>
   validate_SpaceMission script_conversions
      (mission_raw ''M2024_MARS'' 900
         [member_raw ''CM001'' ''commander'' 12, member_raw ''LT002'' ''lieutenant'' 6,
          member_raw ''OF003'' ''officer'' 5])
     = Inr (mission_record ''M2024_MARS'' 900
         [member_record ''CM001'' commander 12, member_record ''LT002'' lieutenant 6,
          member_record ''OF003'' officer 5])"
proof -
  let ?s = "\<lparr>station_id = ''ISS001'', SpaceStation.name = ''International Space Station'',
            crew_size = 6, power_level = 171 / 2, oxygen_level = 923 / 10,
            last_maintenance = Datetime 2026 2 1 10 30 0, is_operational = True,
            notes = Some ''All systems nominal.''\<rparr>"
  let ?rv2 = "contact_raw ''AC_2024_001'' ''radio'' (17 / 2) 5 (Some (RStr ''Greetings from Zeta Reticuli''))"
  let ?c = "contact_record ''AC_2024_001'' radio (17 / 2) 5 (Some ''Greetings from Zeta Reticuli'')"
  let ?rv3 = "[(''member_id'', RStr ''CM001''), (''name'', RStr ''Test Member''),
       (''rank'', RStr ''commander''), (''age'', RInt 30),
       (''specialization'', RStr ''Support''), (''years_experience'', RInt 12)]"
  let ?x = "member_record ''CM001'' commander 12"
  let ?rv4 = "mission_raw ''M2024_MARS'' 900
         [member_raw ''CM001'' ''commander'' 12, member_raw ''LT002'' ''lieutenant'' 6,
          member_raw ''OF003'' ''officer'' 5]"
  let ?m = "mission_record ''M2024_MARS'' 900
         [member_record ''CM001'' commander 12, member_record ''LT002'' lieutenant 6,
          member_record ''OF003'' officer 5]"
  have h1: "str_in station_iss ''station_id'' 3 10 = Some ''ISS001''"
    "str_in station_iss ''name'' 1 50 = Some ''International Space Station''"
    "int_in script_conversions station_iss ''crew_size'' 1 20 = Some 6"
    "float_in script_conversions station_iss ''power_level'' 0 100 = Some (171 / 2)"
    "float_in script_conversions station_iss ''oxygen_level'' 0 100 = Some (923 / 10)"
    "datetime_in script_conversions station_iss ''last_maintenance''
       = Some (Datetime 2026 2 1 10 30 0)"
    "bool_in station_iss ''is_operational'' True = Some True"
    "optional_str_in station_iss ''notes'' 200 = Some (Some ''All systems nominal.'')"
    by (simp_all add: reading_defs station_iss_def script_conversions_def)
  have h2: "str_in ?rv2 ''contact_id'' 5 15 = Some (contact_id ?c)"
    "datetime_in script_conversions ?rv2 ''timestamp'' = Some (timestamp ?c)"
    "str_in ?rv2 ''location'' 3 100 = Some (location ?c)"
    "enum_in ?rv2 ''contact_type'' ContactType_by_value = Some (contact_type ?c)"
    "float_in script_conversions ?rv2 ''signal_strength'' 0 10 = Some (signal_strength ?c)"
    "int_in script_conversions ?rv2 ''duration_minutes'' 1 1440 = Some (duration_minutes ?c)"
    "int_in script_conversions ?rv2 ''witness_count'' 1 100 = Some (witness_count ?c)"
    "optional_str_in ?rv2 ''message_received'' 500 = Some (message_received ?c)"
    "bool_in ?rv2 ''is_verified'' False = Some (is_verified ?c)"
    by (simp_all add: reading_defs contact_raw_def contact_record_def script_conversions_def
        ContactType_by_value_def)
  have r2: "failing AlienContact_rules ?c = []"
    by (simp add: failing_def AlienContact_rules_def contact_record_def)
  have h3: "str_in ?rv3 ''member_id'' 3 10 = Some (member_id ?x)"
    "str_in ?rv3 ''name'' 2 50 = Some (CrewMember.name ?x)"
    "enum_in ?rv3 ''rank'' Rank_by_value = Some (rank ?x)"
    "int_in script_conversions ?rv3 ''age'' 18 80 = Some (age ?x)"
    "str_in ?rv3 ''specialization'' 3 30 = Some (specialization ?x)"
    "int_in script_conversions ?rv3 ''years_experience'' 0 50 = Some (years_experience ?x)"
    "bool_in ?rv3 ''is_active'' True = Some (is_active ?x)"
    by (simp_all add: reading_defs member_record_def script_conversions_def Rank_by_value_def)
  have h4: "str_in ?rv4 ''mission_id'' 5 15 = Some (mission_id ?m)"
    "str_in ?rv4 ''mission_name'' 3 100 = Some (mission_name ?m)"
    "str_in ?rv4 ''destination'' 3 50 = Some (destination ?m)"
    "datetime_in script_conversions ?rv4 ''launch_date'' = Some (launch_date ?m)"
    "int_in script_conversions ?rv4 ''duration_days'' 1 3650 = Some (duration_days ?m)"
    "plain_str_in ?rv4 ''mission_status'' ''planned'' = Some (mission_status ?m)"
    "float_in script_conversions ?rv4 ''budget_millions'' 1 10000 = Some (budget_millions ?m)"
    by (simp_all add: reading_defs mission_raw_def mission_record_def script_conversions_def)
  have c4: "list_in ?rv4 ''crew'' 1 12 (CrewMember_in script_conversions)
     = Some [member_record ''CM001'' commander 12, member_record ''LT002'' lieutenant 6,
          member_record ''OF003'' officer 5]"
    by (simp add: reading_defs mission_raw_def member_raw_def member_record_def
        script_conversions_def Rank_by_value_def)
  have c4': "crew ?m = [member_record ''CM001'' commander 12, member_record ''LT002'' lieutenant 6,
          member_record ''OF003'' officer 5]"
    by (simp add: mission_record_def)
  have r4: "failing SpaceMission_rules ?m = []"
    by (simp add: failing_def SpaceMission_rules_def mission_record_def member_record_def
        experienced_def)
  show ?thesis
    using valid_input_is_accepted [where cv = script_conversions and ?rv1.0 = station_iss
        and s = ?s and ?rv2.0 = ?rv2 and c = ?c and ?rv3.0 = ?rv3 and x = ?x
        and ?rv4.0 = ?rv4 and m = ?m]
      h1 h2 r2 h3 h4 c4 c4' r4
    by simp
qed

text \<open>
  Claim C7.  For each of the four record types, validating the raw-value representation
  of a successfully validated record succeeds and yields the same record.
\<close>

theorem revalidation_is_idempotent:
  "(validate_SpaceStation cv rv1 = Inr s \<longrightarrow>
      validate_SpaceStation cv (raw_of_SpaceStation s) = Inr s) \<and>
   (validate_AlienContact cv rv2 = Inr c \<longrightarrow>
      validate_AlienContact cv (raw_of_AlienContact c) = Inr c) \<and>
   (validate_CrewMember cv rv3 = Inr x \<longrightarrow>
      validate_CrewMember cv (raw_of_CrewMember x) = Inr x) \<and>
   (validate_SpaceMission cv rv4 = Inr m \<longrightarrow>
      validate_SpaceMission cv (raw_of_SpaceMission m) = Inr m)"
  by (simp add: SpaceStation_again AlienContact_again CrewMember_again SpaceMission_again)

text \<open>
  The station of \<open>ex0\<close>, a contact report, a crew member and a mission are validated,
  written back as raw values and validated again, to the same records.
\<close>

theorem revalidation_is_idempotent_witness:
  "validate_SpaceStation script_conversions station_iss
     = Inr \<lparr>station_id = ''ISS001'', SpaceStation.name = ''International Space Station'',
            crew_size = 6, power_level = 171 / 2, oxygen_level = 923 / 10,
            last_maintenance = Datetime 2026 2 1 10 30 0, is_operational = True,
            notes = Some ''All systems nominal.''\<rparr> \<and>
   validate_SpaceStation script_conversions
      (raw_of_SpaceStation
         \<lparr>station_id = ''ISS001'', SpaceStation.name = ''International Space Station'',
          crew_size = 6, power_level = 171 / 2, oxygen_level = 923 / 10,
          last_maintenance = Datetime 2026 2 1 10 30 0, is_operational = True,
          notes = Some ''All systems nominal.''\<rparr>)
     = Inr \<lparr>station_id = ''ISS001'', SpaceStation.name = ''International Space Station'',
            crew_size = 6, power_level = 171 / 2, oxygen_level = 923 / 10,
            last_maintenance = Datetime 2026 2 1 10 30 0, is_operational = True,
            notes = Some ''All systems nominal.''\<rparr> \<and>
   validate_AlienContact script_conversions
      (contact_raw ''AC_2024_001'' ''radio'' (17 / 2) 5 (Some (RStr ''Greetings from Zeta Reticuli'')))
     = Inr (contact_record ''AC_2024_001'' radio (17 / 2) 5 (Some ''Greetings from Zeta Reticuli'')) \<and>
   validate_AlienContact script_conversions
      (raw_of_AlienContact
         (contact_record ''AC_2024_001'' radio (17 / 2) 5 (Some ''Greetings from Zeta Reticuli'')))
     = Inr (contact_record ''AC_2024_001'' radio (17 / 2) 5 (Some ''Greetings from Zeta Reticuli'')) \<and>
   validate_CrewMember script_conversions
      [(''member_id'', RStr ''CM001''), (''name'', RStr ''Test Member''),
       (''rank'', RStr ''commander''), (''age'', RInt 30),
       (''specialization'', RStr ''Support''), (''years_experience'', RInt 12)]
     = Inr (member_record ''CM001'' commander 12) \<and>
   validate_CrewMember script_conversions (raw_of_CrewMember (member_record ''CM001'' commander 12))
     = Inr (member_record ''CM001'' commander 12) \<and>
   validate_SpaceMission script_conversions
      (mission_raw ''M2024_MARS'' 900
         [member_raw ''CM001'' ''commander'' 12, member_raw ''LT002'' ''lieutenant'' 6,
          member_raw ''OF003'' ''officer'' 5])
     = Inr (mission_record ''M2024_MARS'' 900
         [member_record ''CM001'' commander 12, member_record ''LT002'' lieutenant 6,
          member_record ''OF003'' officer 5]) \<and>
   validate_SpaceMission script_conversions
      (raw_of_SpaceMission
         (mission_record ''M2024_MARS'' 900
            [member_record ''CM001'' commander 12, member_record ''LT002'' lieutenant 6,
             member_record ''OF003'' officer 5]))
     = Inr (mission_record ''M2024_MARS'' 900
         [member_record ''CM001'' commander 12, member_record ''LT002'' lieutenant 6,
          member_record ''OF003'' officer 5])"
proof -
  let ?s = "\<lparr>station_id = ''ISS001'', SpaceStation.name = ''International Space Station'',
            crew_size = 6, power_level = 171 / 2, oxygen_level = 923 / 10,
            last_maintenance = Datetime 2026 2 1 10 30 0, is_operational = True,
            notes = Some ''All systems nominal.''\<rparr>"
  let ?rv2 = "contact_raw ''AC_2024_001'' ''radio'' (17 / 2) 5 (Some (RStr ''Greetings from Zeta Reticuli''))"
  let ?c = "contact_record ''AC_2024_001'' radio (17 / 2) 5 (Some ''Greetings from Zeta Reticuli'')"
  let ?rv3 = "[(''member_id'', RStr ''CM001''), (''name'', RStr ''Test Member''),
       (''rank'', RStr ''commander''), (''age'', RInt 30),
       (''specialization'', RStr ''Support''), (''years_experience'', RInt 12)]"
  let ?x = "member_record ''CM001'' commander 12"
  let ?rv4 = "mission_raw ''M2024_MARS'' 900
         [member_raw ''CM001'' ''commander'' 12, member_raw ''LT002'' ''lieutenant'' 6,
          member_raw ''OF003'' ''officer'' 5]"
  let ?m = "mission_record ''M2024_MARS'' 900
         [member_record ''CM001'' commander 12, member_record ''LT002'' lieutenant 6,
          member_record ''OF003'' officer 5]"
  have v1: "validate_SpaceStation script_conversions station_iss = Inr ?s"
    by (simp add: validate_SpaceStation_def fields_SpaceStation_def station_iss_def
        script_conversions_def engine_defs)
  have f2: "field_phase (fields_AlienContact script_conversions ?rv2) = Inr ?c"
    by (simp add: contact_eval)
  have r2: "validate_business_rules ?c = Inr ?c"
    by (simp add: validate_business_rules_def contact_record_def)
  have v2: "validate_AlienContact script_conversions ?rv2 = Inr ?c"
    by (simp add: validate_AlienContact_fields_ok [OF f2] r2)
  have v3: "validate_CrewMember script_conversions ?rv3 = Inr ?x"
    by (simp add: validate_CrewMember_def fields_CrewMember_def member_record_def
        script_conversions_def Rank_by_value_def engine_defs)
  have f4: "field_phase (fields_SpaceMission script_conversions ?rv4) = Inr ?m"
    by (simp add: mission_eval)
  have r4: "validate_mission_rules ?m = Inr ?m"
    by (simp add: validate_mission_rules_def mission_record_def member_record_def)
  have v4: "validate_SpaceMission script_conversions ?rv4 = Inr ?m"
    by (simp add: validate_SpaceMission_fields_ok [OF f4] r4)
  show ?thesis
    using revalidation_is_idempotent [of script_conversions station_iss ?s ?rv2 ?c ?rv3 ?x ?rv4 ?m]
      v1 v2 v3 v4
    by simp
qed

text \<open>
  Claim C8, as amended.  For every field-valid contact of type telepathic with fewer
  than 3 witnesses whose identifier starts with \<open>AC\<close>, validation returns the
  RuleViolation "Telepathic contact requires at least 3 witnesses" and no field-level
  violation.
\<close>

theorem telepathic_rule:
  \<open>field_phase (fields_AlienContact cv rv) = Inr c \<Longrightarrow> contact_type c = telepathic \<Longrightarrow>
   witness_count c < 3 \<Longrightarrow> prefix ''AC'' (contact_id c) \<Longrightarrow>
   validate_AlienContact cv rv
     = Inl [RuleViolation ''Telepathic contact requires at least 3 witnesses''] \<and>
   field_violations (fields_AlienContact cv rv) = []\<close>
  by (simp add: validate_AlienContact_fields_ok validate_business_rules_def
      fields_ok_no_violations)

text \<open>The rejected report of \<open>ex1\<close>: telepathic, one witness.\<close>

theorem telepathic_rule_witness:
  \<open>field_phase (fields_AlienContact script_conversions
       (contact_raw ''AC_2024_002'' ''telepathic'' 5 1 None))
     = Inr (contact_record ''AC_2024_002'' telepathic 5 1 None) \<and>
   validate_AlienContact script_conversions (contact_raw ''AC_2024_002'' ''telepathic'' 5 1 None)
     = Inl [RuleViolation ''Telepathic contact requires at least 3 witnesses''] \<and>
   field_violations (fields_AlienContact script_conversions
       (contact_raw ''AC_2024_002'' ''telepathic'' 5 1 None)) = []\<close>
proof -
  let ?rv = "contact_raw ''AC_2024_002'' ''telepathic'' 5 1 None"
  let ?c = "contact_record ''AC_2024_002'' telepathic 5 1 None"
  have f: "field_phase (fields_AlienContact script_conversions ?rv) = Inr ?c"
    by (simp add: contact_eval)
  have t: "contact_type ?c = telepathic" and w: "witness_count ?c < 3"
    and p: "prefix ''AC'' (contact_id ?c)"
    by (simp_all add: contact_record_def)
  show ?thesis
    using telepathic_rule [OF f t w p] f by simp
qed

text \<open>
  The claim as stated, for every field-valid telepathic contact with fewer than 3
  witnesses, fails on one whose identifier lacks the prefix: the violation reported is
  that of the identifier.
\<close>

theorem telepathic_rule_counterexample:
  \<open>field_phase (fields_AlienContact script_conversions
       (contact_raw ''ZZ_2024_002'' ''telepathic'' 5 1 None))
     = Inr (contact_record ''ZZ_2024_002'' telepathic 5 1 None) \<and>
   contact_type (contact_record ''ZZ_2024_002'' telepathic 5 1 None) = telepathic \<and>
   witness_count (contact_record ''ZZ_2024_002'' telepathic 5 1 None) < 3 \<and>
   validate_AlienContact script_conversions (contact_raw ''ZZ_2024_002'' ''telepathic'' 5 1 None)
     = Inl [RuleViolation ''Contact ID must start with "AC" (Alien Contact)''] \<and>
   validate_AlienContact script_conversions (contact_raw ''ZZ_2024_002'' ''telepathic'' 5 1 None)
     \<noteq> Inl [RuleViolation ''Telepathic contact requires at least 3 witnesses'']\<close>
proof -
  let ?rv = "contact_raw ''ZZ_2024_002'' ''telepathic'' 5 1 None"
  let ?c = "contact_record ''ZZ_2024_002'' telepathic 5 1 None"
  have f: "field_phase (fields_AlienContact script_conversions ?rv) = Inr ?c"
    by (simp add: contact_eval)
  have r: \<open>validate_business_rules ?c = Inl ''Contact ID must start with "AC" (Alien Contact)''\<close>
    by (simp add: validate_business_rules_def contact_record_def)
  have v: \<open>validate_AlienContact script_conversions ?rv
             = Inl [RuleViolation ''Contact ID must start with "AC" (Alien Contact)'']\<close>
    by (simp add: validate_AlienContact_fields_ok [OF f] r)
  show ?thesis
    using f v by (simp add: contact_record_def)
qed

text \<open>
  Claim C9, as amended.  For every field-valid mission whose identifier starts with
  \<open>M\<close> and whose crew has no captain and no commander, validation returns the
  RuleViolation "Mission must have at least one Commander or Captain"; and whenever the
  crew of a field-valid mission has such a member, that violation is not the outcome.
\<close>

theorem leader_rule:
  \<open>field_phase (fields_SpaceMission cv rv) = Inr m \<Longrightarrow>
   (prefix ''M'' (mission_id m) \<and> \<not> (\<exists>x \<in> set (crew m). rank x = captain \<or> rank x = commander)
      \<longrightarrow> validate_SpaceMission cv rv
            = Inl [RuleViolation ''Mission must have at least one Commander or Captain'']) \<and>
   ((\<exists>x \<in> set (crew m). rank x = captain \<or> rank x = commander)
      \<longrightarrow> validate_SpaceMission cv rv
            \<noteq> Inl [RuleViolation ''Mission must have at least one Commander or Captain''])\<close>
  by (simp add: validate_SpaceMission_fields_ok validate_mission_rules_def fold_has_leader
      fold_exprienced fold_all_active Let_def)

text \<open>
  The mission of a single cadet of \<open>ex2\<close> is rejected for its missing leader; a mission
  led by a captain is not, whatever else is wrong with it.
\<close>

theorem leader_rule_witness:
  \<open>field_phase (fields_SpaceMission script_conversions
       (mission_raw ''M2026_TEST'' 30 [member_raw ''CD001'' ''cadet'' 1]))
     = Inr (mission_record ''M2026_TEST'' 30 [member_record ''CD001'' cadet 1]) \<and>
   validate_SpaceMission script_conversions
       (mission_raw ''M2026_TEST'' 30 [member_raw ''CD001'' ''cadet'' 1])
     = Inl [RuleViolation ''Mission must have at least one Commander or Captain''] \<and>
   field_phase (fields_SpaceMission script_conversions
       (mission_raw ''X2026_TEST'' 30 [member_raw ''CP001'' ''captain'' 1]))
     = Inr (mission_record ''X2026_TEST'' 30 [member_record ''CP001'' captain 1]) \<and>
   validate_SpaceMission script_conversions
       (mission_raw ''X2026_TEST'' 30 [member_raw ''CP001'' ''captain'' 1])
     \<noteq> Inl [RuleViolation ''Mission must have at least one Commander or Captain'']\<close>
proof -
  let ?rv = "mission_raw ''M2026_TEST'' 30 [member_raw ''CD001'' ''cadet'' 1]"
  let ?m = "mission_record ''M2026_TEST'' 30 [member_record ''CD001'' cadet 1]"
  let ?rv' = "mission_raw ''X2026_TEST'' 30 [member_raw ''CP001'' ''captain'' 1]"
  let ?m' = "mission_record ''X2026_TEST'' 30 [member_record ''CP001'' captain 1]"
  have f: "field_phase (fields_SpaceMission script_conversions ?rv) = Inr ?m"
    by (simp add: mission_eval)
  have f': "field_phase (fields_SpaceMission script_conversions ?rv') = Inr ?m'"
    by (simp add: mission_eval)
  have p: "prefix ''M'' (mission_id ?m) \<and>
           \<not> (\<exists>x \<in> set (crew ?m). rank x = captain \<or> rank x = commander)"
    by (simp add: mission_record_def member_record_def)
  have l: "\<exists>x \<in> set (crew ?m'). rank x = captain \<or> rank x = commander"
    by (simp add: mission_record_def member_record_def)
  show ?thesis
    using leader_rule [OF f] leader_rule [OF f'] f f' p l by blast
qed

text \<open>
  The claim as stated, for every field-valid mission without a leader, fails on the
  mission of a single cadet whose identifier lacks the prefix: the violation reported
  is that of the identifier.
\<close>

theorem leader_rule_counterexample:
  \<open>field_phase (fields_SpaceMission script_conversions
       (mission_raw ''T2026_TEST'' 30 [member_raw ''CD001'' ''cadet'' 1]))
     = Inr (mission_record ''T2026_TEST'' 30 [member_record ''CD001'' cadet 1]) \<and>
   crew (mission_record ''T2026_TEST'' 30 [member_record ''CD001'' cadet 1])
     = [member_record ''CD001'' cadet 1] \<and>
   rank (member_record ''CD001'' cadet 1) = cadet \<and>
   validate_SpaceMission script_conversions
       (mission_raw ''T2026_TEST'' 30 [member_raw ''CD001'' ''cadet'' 1])
     = Inl [RuleViolation ''Mission ID must start with "M"''] \<and>
   validate_SpaceMission script_conversions
       (mission_raw ''T2026_TEST'' 30 [member_raw ''CD001'' ''cadet'' 1])
     \<noteq> Inl [RuleViolation ''Mission must have at least one Commander or Captain'']\<close>
proof -
  let ?rv = "mission_raw ''T2026_TEST'' 30 [member_raw ''CD001'' ''cadet'' 1]"
  let ?m = "mission_record ''T2026_TEST'' 30 [member_record ''CD001'' cadet 1]"
  have f: "field_phase (fields_SpaceMission script_conversions ?rv) = Inr ?m"
    by (simp add: mission_eval)
  have r: \<open>validate_mission_rules ?m = Inl ''Mission ID must start with "M"''\<close>
    by (simp add: validate_mission_rules_def mission_record_def)
  have v: \<open>validate_SpaceMission script_conversions ?rv
             = Inl [RuleViolation ''Mission ID must start with "M"'']\<close>
    by (simp add: validate_SpaceMission_fields_ok [OF f] r)
  show ?thesis
    using f v by (simp add: mission_record_def member_record_def)
qed

text \<open>
  Claim C10, as amended.  For every field-valid contact with a signal strength above
  7.0 whose message is the empty string and which passes the three earlier rules,
  validation rejects the input with the strong-signal RuleViolation; the validator
  treats the record as it treats the one with the message absent.
\<close>

theorem empty_message_rule:
  \<open>field_phase (fields_AlienContact cv rv) = Inr c \<Longrightarrow> 7 < signal_strength c \<Longrightarrow>
   message_received c = Some [] \<Longrightarrow> prefix ''AC'' (contact_id c) \<Longrightarrow>
   (contact_type c = physical \<longrightarrow> is_verified c) \<Longrightarrow>
   (contact_type c = telepathic \<longrightarrow> 3 \<le> witness_count c) \<Longrightarrow>
   validate_AlienContact cv rv
     = Inl [RuleViolation ''Strong signals (> 7.0) should include received messages''] \<and>
   validate_business_rules (c\<lparr>message_received := None\<rparr>) = validate_business_rules c\<close>
  by (auto simp: validate_AlienContact_fields_ok validate_business_rules_def)

text \<open>A visual contact of strength 8 with an empty message.\<close>

theorem empty_message_rule_witness:
  \<open>field_phase (fields_AlienContact script_conversions
       (contact_raw ''AC_2024_004'' ''visual'' 8 2 (Some (RStr ''''))))
     = Inr (contact_record ''AC_2024_004'' visual 8 2 (Some '''')) \<and>
   validate_AlienContact script_conversions
       (contact_raw ''AC_2024_004'' ''visual'' 8 2 (Some (RStr '''')))
     = Inl [RuleViolation ''Strong signals (> 7.0) should include received messages'']\<close>
proof -
  let ?rv = "contact_raw ''AC_2024_004'' ''visual'' 8 2 (Some (RStr ''''))"
  let ?c = "contact_record ''AC_2024_004'' visual 8 2 (Some '''')"
  have f: "field_phase (fields_AlienContact script_conversions ?rv) = Inr ?c"
    by (simp add: contact_eval)
  have s: "7 < signal_strength ?c" and e: "message_received ?c = Some []"
    and p: "prefix ''AC'' (contact_id ?c)"
    and ph: "contact_type ?c = physical \<longrightarrow> is_verified ?c"
    and t: "contact_type ?c = telepathic \<longrightarrow> 3 \<le> witness_count ?c"
    by (simp_all add: contact_record_def)
  show ?thesis
    using empty_message_rule [OF f s e p ph t] f by simp
qed

text \<open>
  The claim as stated, for every field-valid contact with a strong signal and an empty
  message, fails on one whose identifier lacks the prefix: the violation reported is
  that of the identifier.
\<close>

theorem empty_message_rule_counterexample:
  \<open>field_phase (fields_AlienContact script_conversions
       (contact_raw ''BC_2024_004'' ''visual'' 8 2 (Some (RStr ''''))))
     = Inr (contact_record ''BC_2024_004'' visual 8 2 (Some '''')) \<and>
   7 < signal_strength (contact_record ''BC_2024_004'' visual 8 2 (Some '''')) \<and>
   message_received (contact_record ''BC_2024_004'' visual 8 2 (Some '''')) = Some '''' \<and>
   validate_AlienContact script_conversions
       (contact_raw ''BC_2024_004'' ''visual'' 8 2 (Some (RStr '''')))
     = Inl [RuleViolation ''Contact ID must start with "AC" (Alien Contact)''] \<and>
   validate_AlienContact script_conversions
       (contact_raw ''BC_2024_004'' ''visual'' 8 2 (Some (RStr '''')))
     \<noteq> Inl [RuleViolation ''Strong signals (> 7.0) should include received messages'']\<close>
proof -
  let ?rv = "contact_raw ''BC_2024_004'' ''visual'' 8 2 (Some (RStr ''''))"
  let ?c = "contact_record ''BC_2024_004'' visual 8 2 (Some '''')"
  have f: "field_phase (fields_AlienContact script_conversions ?rv) = Inr ?c"
    by (simp add: contact_eval)
  have r: \<open>validate_business_rules ?c = Inl ''Contact ID must start with "AC" (Alien Contact)''\<close>
    by (simp add: validate_business_rules_def contact_record_def)
  have v: \<open>validate_AlienContact script_conversions ?rv
             = Inl [RuleViolation ''Contact ID must start with "AC" (Alien Contact)'']\<close>
    by (simp add: validate_AlienContact_fields_ok [OF f] r)
  show ?thesis
    using f v by (simp add: contact_record_def)
qed

end
